theory Spec2Isabelle
  imports Main "HOL-Library.Word"
begin

unbundle bit_operations_syntax

section \<open>PLC-5 tags over PCCC: the model of \<open>src/protocols/ab2/plc5.c\<close>\<close>

subsection \<open>Machine types, status codes and faults\<close>

text \<open>
  \<open>uint8_t\<close> and \<open>uint16_t\<close> are words, so that \<open>+=\<close> on \<open>trans_offset\<close> wraps as in C.
  Values of C type \<open>int\<close> and \<open>int32_t\<close> are \<open>int\<close>: the sizes, offsets and counts this file
  computes with stay far inside the 32-bit range for every buffer a process can hold.
\<close>

type_synonym uint8_t = "8 word"
type_synonym uint16_t = "16 word"

text \<open>
  Modelled from the spec: the \<open>PLCTAG_*\<close> macros belong to the library's public header
  \<open>libplctag.h\<close>, which is not among the sources at hand. Section 7 of the specification
  names the kinds (null argument, out of bounds, too small, bad reply, unsupported); a
  return code is a C \<open>int\<close>, as \<open>rc\<close> is in every function of the file, and the values
  are those of the public header. What is proved below uses of these values only that they
  are distinct, that each of them fits \<open>int8_t\<close> and that \<open>PLCTAG_STATUS_OK\<close> is
  not changed by a cast to \<open>uint16_t\<close>. Any other \<open>int\<close> is a code a collaborator may
  return.
\<close>

type_synonym status = int

definition PLCTAG_STATUS_OK :: status where
  "PLCTAG_STATUS_OK = 0"

definition PLCTAG_STATUS_PENDING :: status where
  "PLCTAG_STATUS_PENDING = 1"

definition PLCTAG_ERR_BAD_REPLY :: status where
  "PLCTAG_ERR_BAD_REPLY = - 8"

definition PLCTAG_ERR_NULL_PTR :: status where
  "PLCTAG_ERR_NULL_PTR = - 25"

definition PLCTAG_ERR_OUT_OF_BOUNDS :: status where
  "PLCTAG_ERR_OUT_OF_BOUNDS = - 27"

definition PLCTAG_ERR_TOO_SMALL :: status where
  "PLCTAG_ERR_TOO_SMALL = - 34"

definition PLCTAG_ERR_UNSUPPORTED :: status where
  "PLCTAG_ERR_UNSUPPORTED = - 35"

text \<open>
  The two casts the file applies to a return code: \<open>(uint16_t)\<close> at line 330 keeps the
  low 16 bits as an unsigned value, and \<open>(int8_t)\<close>, wherever \<open>rc\<close> is stored in
  \<open>base_tag.status\<close>, keeps the low 8 bits as a two's complement value.
\<close>

definition uint16_t_cast :: "int \<Rightarrow> int" where
  "uint16_t_cast v = uint (word_of_int v :: uint16_t)"

definition int8_t_cast :: "int \<Rightarrow> int" where
  "int8_t_cast v = sint (word_of_int v :: uint8_t)"

text \<open>
  What C leaves undefined and the source does not guard: an index outside the packet
  buffer, an index outside the tag's data buffer, a division by zero.
\<close>

datatype fault =
    Packet_Buffer_Out_Of_Bounds
  | Tag_Data_Out_Of_Bounds
  | Division_By_Zero

subsection \<open>The packet cursor and the \<open>TRY_SET\<close> macros\<close>

text \<open>
  A cursor is the packet buffer together with the offset the next byte goes to. One step
  of a \<open>do { ... } while(0)\<close> body either goes on, or sets \<open>rc\<close> and breaks (the buffer
  and the offset stay as they are at the break), or faults.
\<close>

type_synonym cursor = "uint8_t list \<times> int"

datatype exec =
    Continue cursor
  | Break status cursor
  | Fault fault

fun and_then :: "exec \<Rightarrow> (cursor \<Rightarrow> exec) \<Rightarrow> exec" where
  "and_then (Continue c) f = f c"
| "and_then (Break rc c) f = Break rc c"
| "and_then (Fault x) f = Fault x"

text \<open>
  \<open>TRY_SET_BYTE\<close>, as the expansion kept in the comment at line 646 has it:
  \<^verbatim>\<open>if(*offset < buffer_capacity) { buffer[*offset] = (uint8_t)(unsigned int)(0x0E); }
  else { rc = PLCTAG_ERR_OUT_OF_BOUNDS; break; } (offset++);\<close>
  The list is the memory really behind \<open>buffer\<close>; a store outside it is a fault.
\<close>

definition TRY_SET_BYTE :: "int \<Rightarrow> int \<Rightarrow> cursor \<Rightarrow> exec" where
  "TRY_SET_BYTE buffer_capacity val c =
     (case c of (buffer, offset) \<Rightarrow>
        if offset < buffer_capacity then
          (if 0 \<le> offset \<and> offset < int (length buffer)
           then Continue (buffer[nat offset := word_of_int val], offset + 1)
           else Fault Packet_Buffer_Out_Of_Bounds)
        else Break PLCTAG_ERR_OUT_OF_BOUNDS (buffer, offset))"

text \<open>
  Modelled from the spec: the macro \<open>TRY_SET_U16_LE\<close> is defined in a header that is not
  part of the sources at hand. The spec describes the writers as bounds-checked against the
  capacity, never writing out of bounds, and every multi-byte integer as little-endian:
  both bytes are stored, low byte first, when both fit below the capacity, and the body is
  left with \<open>PLCTAG_ERR_OUT_OF_BOUNDS\<close> otherwise.
\<close>

definition TRY_SET_U16_LE :: "int \<Rightarrow> int \<Rightarrow> cursor \<Rightarrow> exec" where
  "TRY_SET_U16_LE buffer_capacity val c =
     (case c of (buffer, offset) \<Rightarrow>
        if offset + 1 < buffer_capacity then
          (if 0 \<le> offset \<and> offset + 1 < int (length buffer)
           then Continue
                  (buffer[nat offset := ucast (word_of_int val :: uint16_t),
                          nat offset + 1 := ucast (drop_bit 8 (word_of_int val :: uint16_t))],
                   offset + 2)
           else Fault Packet_Buffer_Out_Of_Bounds)
        else Break PLCTAG_ERR_OUT_OF_BOUNDS (buffer, offset))"

subsection \<open>The logical address encoder\<close>

definition encode_plc5_logical_address ::
  "int \<Rightarrow> int \<Rightarrow> int \<Rightarrow> int \<Rightarrow> cursor \<Rightarrow> exec" where
  "encode_plc5_logical_address buffer_capacity data_file_num data_file_elem data_file_sub_elem c0 =
     and_then
       (if data_file_sub_elem > 0 then TRY_SET_BYTE buffer_capacity 0x0E c0
        else TRY_SET_BYTE buffer_capacity 0x06 c0)
       (\<lambda>c1.
     and_then
       (if data_file_num \<le> 0xFE then TRY_SET_BYTE buffer_capacity data_file_num c1
        else and_then (TRY_SET_BYTE buffer_capacity 0xFF c1)
               (TRY_SET_U16_LE buffer_capacity data_file_num))
       (\<lambda>c2.
     and_then
       (if data_file_elem \<le> 0xFE then TRY_SET_BYTE buffer_capacity data_file_elem c2
        else and_then (TRY_SET_BYTE buffer_capacity 0xFF c2)
               (TRY_SET_U16_LE buffer_capacity data_file_elem))
       (\<lambda>c3.
     if data_file_sub_elem \<ge> 0 then
       (if data_file_sub_elem \<le> 0xFE then TRY_SET_BYTE buffer_capacity data_file_sub_elem c3
        else and_then (TRY_SET_BYTE buffer_capacity 0xFF c3)
               (TRY_SET_U16_LE buffer_capacity data_file_sub_elem))
     else Continue c3)))"

subsection \<open>The tag, the collaborators and what a callback returns\<close>

text \<open>
  The fields of \<open>ab2_plc5_tag_t\<close> this file reads or writes; \<open>base_tag_status\<close>,
  \<open>base_tag_size\<close> and \<open>base_tag_data\<close> are \<open>base_tag.status\<close>, \<open>base_tag.size\<close> and
  \<open>base_tag.data\<close>. The list \<open>base_tag_data\<close> is the memory really behind the pointer.
\<close>

record ab2_plc5_tag =
  base_tag_status :: status
  base_tag_size :: int
  base_tag_data :: "uint8_t list"
  elem_size :: uint16_t
  elem_count :: uint16_t
  data_file_num :: int
  data_file_elem :: int
  data_file_sub_elem :: int
  tsn :: uint16_t
  trans_offset :: uint16_t

text \<open>
  What is declared outside this file and only used here: the two PCCC constants of
  \<open>ab2/common_defs.h\<close>, the outcome of one call of \<open>pccc_eip_plc_get_tsn\<close> (its return
  code and the value it leaves in \<open>tag->tsn\<close>) and the return code of one call of
  \<open>plc_start_request\<close>. They are parameters of every callback.
\<close>

record collaborators =
  PCCC_TYPED_CMD :: uint8_t
  PCCC_CMD_OK :: uint8_t
  pccc_eip_plc_get_tsn :: "status \<times> uint16_t"
  plc_start_request :: status

text \<open>
  A callback returns \<open>rc\<close> and leaves behind the tag, the packet buffer and the two
  positions \<open>*data_start\<close> and \<open>*data_end\<close>; \<open>ret_started_request\<close> tells whether it called
  \<open>plc_start_request\<close>.
\<close>

record callback_result =
  ret_rc :: status
  ret_tag :: ab2_plc5_tag
  ret_buffer :: "uint8_t list"
  ret_data_start :: int
  ret_data_end :: int
  ret_started_request :: bool

text \<open>The common tail \<open>if(rc != PLCTAG_STATUS_OK) { tag->base_tag.status = (int8_t)rc; return rc; }\<close>.\<close>

definition return_error ::
  "status \<Rightarrow> ab2_plc5_tag \<Rightarrow> uint8_t list \<Rightarrow> int \<Rightarrow> int \<Rightarrow> bool \<Rightarrow> callback_result" where
  "return_error e t b ds de started =
     \<lparr>ret_rc = e, ret_tag = t\<lparr>base_tag_status := int8_t_cast e\<rparr>, ret_buffer = b,
      ret_data_start = ds, ret_data_end = de, ret_started_request = started\<rparr>"

definition PLC5_RANGE_READ_FUNC :: int where "PLC5_RANGE_READ_FUNC = 0x01"
definition PLC5_RANGE_WRITE_FUNC :: int where "PLC5_RANGE_WRITE_FUNC = 0x00"
definition PLC5_WORD_RANGE_READ_MAX_PAYLOAD :: int where "PLC5_WORD_RANGE_READ_MAX_PAYLOAD = 244"
definition PLC5_WORD_RANGE_WRITE_MAX_PAYLOAD :: int where "PLC5_WORD_RANGE_WRITE_MAX_PAYLOAD = 244"

text \<open>C's \<open>/\<close> on \<open>int\<close> truncates towards zero; the divisor is checked before each use.\<close>

definition c_div :: "int \<Rightarrow> int \<Rightarrow> int" where
  "c_div a b = sgn a * sgn b * (\<bar>a\<bar> div \<bar>b\<bar>)"

subsection \<open>The size of one round\<close>

text \<open>
  Lines 357 to 368 and 522 to 533 are the same computation on a different starting
  \<open>max_trans_size\<close>: the smaller of the payload limit and the bytes that remain, then
  the whole elements that fit.
\<close>

definition max_trans_size :: "int \<Rightarrow> ab2_plc5_tag \<Rightarrow> int" where
  "max_trans_size payload t =
     (if base_tag_size t - uint (trans_offset t) < payload
      then base_tag_size t - uint (trans_offset t) else payload)"

definition num_elems :: "int \<Rightarrow> ab2_plc5_tag \<Rightarrow> int" where
  "num_elems payload t = c_div (max_trans_size payload t) (uint (elem_size t))"

definition trans_size :: "int \<Rightarrow> ab2_plc5_tag \<Rightarrow> int" where
  "trans_size payload t = num_elems payload t * uint (elem_size t)"

subsection \<open>Building a read request\<close>

text \<open>
  The body of the \<open>do { ... } while(0)\<close> falls into the two header bytes, the call of
  \<open>pccc_eip_plc_get_tsn\<close>, and the rest, \<open>read_request_body\<close>. Line 330 casts the code
  that call returns to \<open>uint16_t\<close> before it compares it with \<open>PLCTAG_STATUS_OK\<close>: on a
  failed TSN allocation the builder returns the cast value (65497 for the code -39), and
  stores the \<open>int8_t\<close> cast of that in the tag's status. The write builder has no such
  cast. The division at line 364 is guarded here by the test of \<open>elem_size\<close> that the
  source lacks.
\<close>

definition read_request_body :: "ab2_plc5_tag \<Rightarrow> int \<Rightarrow> cursor \<Rightarrow> exec" where
  "read_request_body t buffer_capacity c0 =
     and_then (TRY_SET_U16_LE buffer_capacity (uint (tsn t)) c0) (\<lambda>c1.
     and_then (TRY_SET_BYTE buffer_capacity PLC5_RANGE_READ_FUNC c1) (\<lambda>c2.
     and_then (TRY_SET_U16_LE buffer_capacity (uint (trans_offset t)) c2) (\<lambda>c3.
     and_then (TRY_SET_U16_LE buffer_capacity (c_div (base_tag_size t) 2) c3) (\<lambda>c4.
     and_then (encode_plc5_logical_address buffer_capacity
                 (data_file_num t) (data_file_elem t) (data_file_sub_elem t) c4) (\<lambda>c5.
     if elem_size t = 0 then Fault Division_By_Zero
     else TRY_SET_BYTE buffer_capacity (trans_size PLC5_WORD_RANGE_READ_MAX_PAYLOAD t) c5)))))"

definition build_read_request_callback ::
  "collaborators \<Rightarrow> ab2_plc5_tag \<Rightarrow> uint8_t list \<Rightarrow> int \<Rightarrow> int \<Rightarrow> int
     \<Rightarrow> fault + callback_result" where
  "build_read_request_callback env t buf buffer_capacity ds de =
     (case and_then (TRY_SET_BYTE buffer_capacity (uint (PCCC_TYPED_CMD env)) (buf, ds))
             (TRY_SET_BYTE buffer_capacity 0) of
        Fault x \<Rightarrow> Inl x
      | Break e c \<Rightarrow> Inr (return_error e t (fst c) ds de False)
      | Continue c \<Rightarrow>
          (let t1 = t\<lparr>tsn := snd (pccc_eip_plc_get_tsn env)\<rparr>;
               rc = uint16_t_cast (fst (pccc_eip_plc_get_tsn env)) in
           if rc \<noteq> PLCTAG_STATUS_OK
           then Inr (return_error rc t1 (fst c) ds de False)
           else
             (case read_request_body t1 buffer_capacity c of
                Fault x \<Rightarrow> Inl x
              | Break e c' \<Rightarrow> Inr (return_error e t1 (fst c') ds de False)
              | Continue c' \<Rightarrow>
                  Inr \<lparr>ret_rc = PLCTAG_STATUS_OK, ret_tag = t1, ret_buffer = fst c',
                       ret_data_start = ds, ret_data_end = snd c',
                       ret_started_request = False\<rparr>)))"

subsection \<open>Handling a read response\<close>

text \<open>
  The loop \<open>for(int i=0; i < resp_data_size; i++) tag->base_tag.data[tag->trans_offset + i] = data[i + 4]\<close>
  with \<open>data = buffer + *data_start\<close>: \<open>k\<close> counts the iterations still to run.
\<close>

fun read_copy_loop ::
  "nat \<Rightarrow> int \<Rightarrow> uint8_t list \<Rightarrow> int \<Rightarrow> int \<Rightarrow> uint8_t list \<Rightarrow> fault + uint8_t list" where
  "read_copy_loop 0 i buf ds toff tag_data = Inr tag_data"
| "read_copy_loop (Suc k) i buf ds toff tag_data =
     (if \<not> (0 \<le> ds + i + 4 \<and> ds + i + 4 < int (length buf)) then Inl Packet_Buffer_Out_Of_Bounds
      else if \<not> (0 \<le> toff + i \<and> toff + i < int (length tag_data)) then Inl Tag_Data_Out_Of_Bounds
      else read_copy_loop k (i + 1) buf ds toff
             (tag_data[nat (toff + i) := buf ! nat (ds + i + 4)]))"

definition handle_read_response_callback ::
  "collaborators \<Rightarrow> ab2_plc5_tag \<Rightarrow> uint8_t list \<Rightarrow> int \<Rightarrow> int \<Rightarrow> fault + callback_result" where
  "handle_read_response_callback env t buf ds de =
     (let data_size = de - ds in
      if data_size < 4 then Inr (return_error PLCTAG_ERR_TOO_SMALL t buf ds de False)
      else if \<not> (0 \<le> ds \<and> ds < int (length buf)) then Inl Packet_Buffer_Out_Of_Bounds
      else if buf ! nat ds \<noteq> (PCCC_TYPED_CMD env OR PCCC_CMD_OK env)
        then Inr (return_error PLCTAG_ERR_BAD_REPLY t buf ds de False)
      else if \<not> (ds + 1 < int (length buf)) then Inl Packet_Buffer_Out_Of_Bounds
      else if buf ! nat (ds + 1) \<noteq> 0
        then Inr (return_error PLCTAG_ERR_BAD_REPLY t buf ds de False)
      else
        (let resp_data_size = data_size - 4 in
         case read_copy_loop (nat resp_data_size) 0 buf ds (uint (trans_offset t)) (base_tag_data t) of
           Inl x \<Rightarrow> Inl x
         | Inr d \<Rightarrow>
             (let t1 = t\<lparr>base_tag_data := d,
                         trans_offset := trans_offset t + word_of_int resp_data_size\<rparr> in
              if uint (trans_offset t1) < base_tag_size t1 then
                (if plc_start_request env \<noteq> PLCTAG_STATUS_OK
                 then Inr (return_error (plc_start_request env) t1 buf ds de True)
                 else Inr \<lparr>ret_rc = PLCTAG_STATUS_OK, ret_tag = t1, ret_buffer = buf,
                           ret_data_start = de, ret_data_end = de,
                           ret_started_request = True\<rparr>)
              else
                Inr \<lparr>ret_rc = PLCTAG_STATUS_OK,
                     ret_tag = t1\<lparr>trans_offset := 0,
                                  base_tag_status := int8_t_cast PLCTAG_STATUS_OK\<rparr>,
                     ret_buffer = buf, ret_data_start = de, ret_data_end = de,
                     ret_started_request = False\<rparr>)))"

subsection \<open>Building a write request\<close>

text \<open>
  The write builder starts at \<open>req_off = 0\<close>, whatever \<open>*data_start\<close> is, and ends by
  setting both \<open>*data_start\<close> and \<open>*data_end\<close> to the final \<open>req_off\<close>.
\<close>

definition write_request_header :: "ab2_plc5_tag \<Rightarrow> int \<Rightarrow> cursor \<Rightarrow> exec" where
  "write_request_header t buffer_capacity c0 =
     and_then (TRY_SET_U16_LE buffer_capacity (uint (tsn t)) c0) (\<lambda>c1.
     and_then (TRY_SET_BYTE buffer_capacity PLC5_RANGE_WRITE_FUNC c1) (\<lambda>c2.
     and_then (TRY_SET_U16_LE buffer_capacity (c_div (uint (trans_offset t)) 2) c2) (\<lambda>c3.
     TRY_SET_U16_LE buffer_capacity (c_div (base_tag_size t) 2) c3)))"

text \<open>
  The loop \<open>for(int i=0; i < trans_size; i++) { buffer[req_off] = tag->base_tag.data[tag->trans_offset + i]; req_off++; }\<close>:
  it does not look at \<open>buffer_capacity\<close>.
\<close>

fun write_copy_loop ::
  "nat \<Rightarrow> int \<Rightarrow> uint8_t list \<Rightarrow> int \<Rightarrow> cursor \<Rightarrow> fault + cursor" where
  "write_copy_loop 0 i tag_data toff c = Inr c"
| "write_copy_loop (Suc k) i tag_data toff c =
     (if \<not> (0 \<le> toff + i \<and> toff + i < int (length tag_data)) then Inl Tag_Data_Out_Of_Bounds
      else if \<not> (0 \<le> snd c \<and> snd c < int (length (fst c))) then Inl Packet_Buffer_Out_Of_Bounds
      else write_copy_loop k (i + 1) tag_data toff
             ((fst c)[nat (snd c) := tag_data ! nat (toff + i)], snd c + 1))"

definition build_write_request_callback ::
  "collaborators \<Rightarrow> ab2_plc5_tag \<Rightarrow> uint8_t list \<Rightarrow> int \<Rightarrow> int \<Rightarrow> int
     \<Rightarrow> fault + callback_result" where
  "build_write_request_callback env t buf buffer_capacity ds de =
     (case and_then (TRY_SET_BYTE buffer_capacity (uint (PCCC_TYPED_CMD env)) (buf, 0))
             (TRY_SET_BYTE buffer_capacity 0) of
        Fault x \<Rightarrow> Inl x
      | Break e c \<Rightarrow> Inr (return_error e t (fst c) ds de False)
      | Continue c \<Rightarrow>
          (let t1 = t\<lparr>tsn := snd (pccc_eip_plc_get_tsn env)\<rparr> in
           if fst (pccc_eip_plc_get_tsn env) \<noteq> PLCTAG_STATUS_OK
           then Inr (return_error (fst (pccc_eip_plc_get_tsn env)) t1 (fst c) ds de False)
           else
             (case write_request_header t1 buffer_capacity c of
                Fault x \<Rightarrow> Inl x
              | Break e c' \<Rightarrow> Inr (return_error e t1 (fst c') ds de False)
              | Continue c1 \<Rightarrow>
                  (let encoded_file_start = snd c1 in
                   case encode_plc5_logical_address buffer_capacity
                          (data_file_num t1) (data_file_elem t1) (data_file_sub_elem t1) c1 of
                     Fault x \<Rightarrow> Inl x
                   | Break e c' \<Rightarrow> Inr (return_error e t1 (fst c') ds de False)
                   | Continue c2 \<Rightarrow>
                       (let payload = PLC5_WORD_RANGE_WRITE_MAX_PAYLOAD - (snd c2 - encoded_file_start) in
                        if elem_size t1 = 0 then Inl Division_By_Zero
                        else
                          (case write_copy_loop (nat (trans_size payload t1)) 0
                                  (base_tag_data t1) (uint (trans_offset t1)) c2 of
                             Inl x \<Rightarrow> Inl x
                           | Inr c3 \<Rightarrow>
                               Inr \<lparr>ret_rc = PLCTAG_STATUS_OK,
                                    ret_tag = t1\<lparr>trans_offset :=
                                      trans_offset t1 + word_of_int (trans_size payload t1)\<rparr>,
                                    ret_buffer = fst c3,
                                    ret_data_start = snd c3, ret_data_end = snd c3,
                                    ret_started_request = False\<rparr>))))))"

subsection \<open>Handling a write response\<close>

definition handle_write_response_callback ::
  "collaborators \<Rightarrow> ab2_plc5_tag \<Rightarrow> uint8_t list \<Rightarrow> int \<Rightarrow> int \<Rightarrow> fault + callback_result" where
  "handle_write_response_callback env t buf ds de =
     (let data_size = de - ds in
      if data_size < 4 then Inr (return_error PLCTAG_ERR_TOO_SMALL t buf ds de False)
      else if \<not> (0 \<le> ds \<and> ds < int (length buf)) then Inl Packet_Buffer_Out_Of_Bounds
      else if buf ! nat ds \<noteq> (PCCC_TYPED_CMD env OR PCCC_CMD_OK env)
        then Inr (return_error PLCTAG_ERR_BAD_REPLY t buf ds de False)
      else if \<not> (ds + 1 < int (length buf)) then Inl Packet_Buffer_Out_Of_Bounds
      else if buf ! nat (ds + 1) \<noteq> 0
        then Inr (return_error PLCTAG_ERR_BAD_REPLY t buf ds de False)
      else if uint (trans_offset t) < base_tag_size t then
        (if plc_start_request env \<noteq> PLCTAG_STATUS_OK
         then Inr (return_error (plc_start_request env) t buf ds de True)
         else Inr \<lparr>ret_rc = PLCTAG_STATUS_OK, ret_tag = t, ret_buffer = buf,
                   ret_data_start = de, ret_data_end = de, ret_started_request = True\<rparr>)
      else
        Inr \<lparr>ret_rc = PLCTAG_STATUS_OK,
             ret_tag = t\<lparr>trans_offset := 0, base_tag_status := int8_t_cast PLCTAG_STATUS_OK\<rparr>,
             ret_buffer = buf, ret_data_start = de, ret_data_end = de,
             ret_started_request = False\<rparr>)"

subsection \<open>The control surface\<close>

definition plc5_tag_status :: "ab2_plc5_tag \<Rightarrow> status" where
  "plc5_tag_status t = base_tag_status t"

text \<open>
  \<open>str_cmp_i\<close> belongs to \<open>util/string.h\<close>; the getter takes it as a parameter and returns
  the tag it leaves behind together with its result.
\<close>

definition plc5_get_int_attrib ::
  "(string \<Rightarrow> string \<Rightarrow> int) \<Rightarrow> ab2_plc5_tag \<Rightarrow> string \<Rightarrow> int \<Rightarrow> ab2_plc5_tag \<times> int" where
  "plc5_get_int_attrib str_cmp_i raw_tag attrib_name default_value =
     (let t1 = raw_tag\<lparr>base_tag_status := PLCTAG_STATUS_OK\<rparr> in
      if str_cmp_i attrib_name ''elem_size'' = 0 then (t1, uint (elem_size t1))
      else if str_cmp_i attrib_name ''elem_count'' = 0 then (t1, uint (elem_count t1))
      else (t1\<lparr>base_tag_status := PLCTAG_ERR_UNSUPPORTED\<rparr>, default_value))"

subsection \<open>The bytes a request consists of\<close>

text \<open>
  The packets as byte strings, for stating what the cursor functions leave in the
  buffer: \<open>overwrite_at buf off xs\<close> is \<open>buf\<close> with \<open>xs\<close> stored from position \<open>off\<close> on,
  and \<open>emitted buf off xs\<close> is the cursor after \<open>xs\<close> has been written from \<open>off\<close> on.
\<close>

definition overwrite_at :: "uint8_t list \<Rightarrow> int \<Rightarrow> uint8_t list \<Rightarrow> uint8_t list" where
  "overwrite_at buf off xs = take (nat off) buf @ xs @ drop (nat off + length xs) buf"

definition emitted :: "uint8_t list \<Rightarrow> int \<Rightarrow> uint8_t list \<Rightarrow> cursor" where
  "emitted buf off xs = (overwrite_at buf off xs, off + int (length xs))"

definition u16_le_bytes :: "int \<Rightarrow> uint8_t list" where
  "u16_le_bytes v =
     [ucast (word_of_int v :: uint16_t), ucast (drop_bit 8 (word_of_int v :: uint16_t))]"

text \<open>
  One address field as section 4.1 of the specification words it: one byte if the value
  is at most \<open>0xFE\<close>, otherwise the escape byte \<open>0xFF\<close> followed by the value as 16-bit
  little-endian.
\<close>

definition field_bytes :: "int \<Rightarrow> uint8_t list" where
  "field_bytes v = (if v \<le> 0xFE then [word_of_int v] else 0xFF # u16_le_bytes v)"

text \<open>The level selector as line 644 computes it.\<close>

definition level_selector :: "int \<Rightarrow> uint8_t" where
  "level_selector sub_elem = (if sub_elem > 0 then 0x0E else 0x06)"

definition logical_address_bytes :: "int \<Rightarrow> int \<Rightarrow> int \<Rightarrow> uint8_t list" where
  "logical_address_bytes file_num elem sub_elem =
     level_selector sub_elem # field_bytes file_num @ field_bytes elem
       @ (if sub_elem \<ge> 0 then field_bytes sub_elem else [])"

definition read_request_bytes :: "collaborators \<Rightarrow> ab2_plc5_tag \<Rightarrow> uint8_t list" where
  "read_request_bytes env t =
     [PCCC_TYPED_CMD env, 0] @ u16_le_bytes (uint (tsn t)) @ [0x01]
       @ u16_le_bytes (uint (trans_offset t)) @ u16_le_bytes (c_div (base_tag_size t) 2)
       @ logical_address_bytes (data_file_num t) (data_file_elem t) (data_file_sub_elem t)
       @ [word_of_int (trans_size PLC5_WORD_RANGE_READ_MAX_PAYLOAD t)]"

text \<open>
  The payload limit of a write round, \<open>244\<close> minus the length of the encoded address,
  and the bytes of a write request: the header, the address, then the bytes of the tag's
  data from \<open>trans_offset\<close> on.
\<close>

definition write_payload_limit :: "ab2_plc5_tag \<Rightarrow> int" where
  "write_payload_limit t =
     PLC5_WORD_RANGE_WRITE_MAX_PAYLOAD
       - int (length (logical_address_bytes (data_file_num t) (data_file_elem t) (data_file_sub_elem t)))"

definition write_request_bytes :: "collaborators \<Rightarrow> ab2_plc5_tag \<Rightarrow> uint8_t list" where
  "write_request_bytes env t =
     [PCCC_TYPED_CMD env, 0] @ u16_le_bytes (uint (tsn t)) @ [0x00]
       @ u16_le_bytes (c_div (uint (trans_offset t)) 2) @ u16_le_bytes (c_div (base_tag_size t) 2)
       @ logical_address_bytes (data_file_num t) (data_file_elem t) (data_file_sub_elem t)
       @ take (nat (trans_size (write_payload_limit t) t)) (drop (unat (trans_offset t)) (base_tag_data t))"

text \<open>
  The payload of a response that occupies \<open>[ds, de)\<close> of the packet buffer (everything
  behind its four header bytes), and the tag after that payload has been stored at
  \<open>trans_offset\<close> and \<open>trans_offset\<close> has been moved on by its length.
\<close>

definition response_payload :: "uint8_t list \<Rightarrow> int \<Rightarrow> int \<Rightarrow> uint8_t list" where
  "response_payload buf ds de = take (nat (de - ds - 4)) (drop (nat (ds + 4)) buf)"

definition payload_stored :: "ab2_plc5_tag \<Rightarrow> uint8_t list \<Rightarrow> int \<Rightarrow> int \<Rightarrow> ab2_plc5_tag" where
  "payload_stored t buf ds de =
     t\<lparr>base_tag_data :=
         overwrite_at (base_tag_data t) (uint (trans_offset t)) (response_payload buf ds de),
       trans_offset := trans_offset t + word_of_int (de - ds - 4)\<rparr>"

text \<open>
  The trailing byte of a built read request, which carries the number of bytes the round
  asks for.
\<close>

definition requested_byte_count :: "callback_result \<Rightarrow> uint8_t" where
  "requested_byte_count r = ret_buffer r ! nat (ret_data_end r - 1)"

text \<open>
  A well-formed response as section 6 of the specification lays it out: the command echo
  with the success flag, a zero status, two bytes of TSN echo, the payload.
\<close>

definition response_packet :: "collaborators \<Rightarrow> uint8_t \<Rightarrow> uint8_t \<Rightarrow> uint8_t list \<Rightarrow> uint8_t list" where
  "response_packet env x y p = (PCCC_TYPED_CMD env OR PCCC_CMD_OK env) # 0 # x # y # p"

subsection \<open>Concrete instances\<close>

text \<open>
  One set of collaborators (the PCCC typed command \<open>0x0F\<close>, the success flag \<open>0x40\<close>, a
  TSN that is granted, a request that is accepted) and two tags: the tag of the scenario
  of section 8 of the specification, 500 bytes of 2-byte elements at N7:3, and a small one
  of three 2-byte elements that carries a recorded error.
\<close>

definition scenario_env :: collaborators where
  "scenario_env =
     \<lparr>PCCC_TYPED_CMD = 0x0F, PCCC_CMD_OK = 0x40,
      pccc_eip_plc_get_tsn = (PLCTAG_STATUS_OK, 0x1234),
      plc_start_request = PLCTAG_STATUS_OK\<rparr>"

definition scenario_tag :: ab2_plc5_tag where
  "scenario_tag =
     \<lparr>base_tag_status = PLCTAG_STATUS_PENDING, base_tag_size = 500,
      base_tag_data = replicate 500 0,
      elem_size = 2, elem_count = 250,
      data_file_num = 7, data_file_elem = 3, data_file_sub_elem = - 1,
      tsn = 0, trans_offset = 0\<rparr>"

definition small_tag :: ab2_plc5_tag where
  "small_tag =
     \<lparr>base_tag_status = PLCTAG_ERR_BAD_REPLY, base_tag_size = 6,
      base_tag_data = [1, 2, 3, 4, 5, 6],
      elem_size = 2, elem_count = 3,
      data_file_num = 7, data_file_elem = 3, data_file_sub_elem = - 1,
      tsn = 0, trans_offset = 2\<rparr>"

text \<open>
  The small tag at a point where the 2 bytes that remain are less than one 4-byte element.
\<close>

definition stalled_tag :: ab2_plc5_tag where
  "stalled_tag = small_tag\<lparr>elem_size := 4, trans_offset := 4\<rparr>"

section \<open>The return codes and the casts\<close>

lemma error_codes_not_OK [simp]:
  "PLCTAG_ERR_OUT_OF_BOUNDS \<noteq> PLCTAG_STATUS_OK" "PLCTAG_STATUS_OK \<noteq> PLCTAG_ERR_OUT_OF_BOUNDS"
  "PLCTAG_ERR_TOO_SMALL \<noteq> PLCTAG_STATUS_OK" "PLCTAG_STATUS_OK \<noteq> PLCTAG_ERR_TOO_SMALL"
  "PLCTAG_ERR_BAD_REPLY \<noteq> PLCTAG_STATUS_OK" "PLCTAG_STATUS_OK \<noteq> PLCTAG_ERR_BAD_REPLY"
  "PLCTAG_ERR_UNSUPPORTED \<noteq> PLCTAG_STATUS_OK" "PLCTAG_STATUS_OK \<noteq> PLCTAG_ERR_UNSUPPORTED"
  by (simp_all add: PLCTAG_STATUS_OK_def PLCTAG_ERR_OUT_OF_BOUNDS_def PLCTAG_ERR_TOO_SMALL_def
        PLCTAG_ERR_BAD_REPLY_def PLCTAG_ERR_UNSUPPORTED_def)

lemma int8_t_cast_codes [simp]:
  "int8_t_cast PLCTAG_STATUS_OK = PLCTAG_STATUS_OK"
  "int8_t_cast PLCTAG_ERR_OUT_OF_BOUNDS = PLCTAG_ERR_OUT_OF_BOUNDS"
  "int8_t_cast PLCTAG_ERR_TOO_SMALL = PLCTAG_ERR_TOO_SMALL"
  "int8_t_cast PLCTAG_ERR_BAD_REPLY = PLCTAG_ERR_BAD_REPLY"
  by (simp_all add: int8_t_cast_def PLCTAG_STATUS_OK_def PLCTAG_ERR_OUT_OF_BOUNDS_def
        PLCTAG_ERR_TOO_SMALL_def PLCTAG_ERR_BAD_REPLY_def)

lemma uint16_t_cast_OK [simp]: "uint16_t_cast PLCTAG_STATUS_OK = PLCTAG_STATUS_OK"
  by (simp add: uint16_t_cast_def PLCTAG_STATUS_OK_def)

section \<open>What the cursor functions leave in the buffer\<close>

lemma overwrite_at_Nil: "overwrite_at buf off [] = buf"
  by (simp add: overwrite_at_def)

lemma emitted_Nil: "emitted buf off [] = (buf, off)"
  by (simp add: emitted_def overwrite_at_Nil)

lemma length_overwrite_at:
  "0 \<le> off \<Longrightarrow> off + int (length xs) \<le> int (length buf) \<Longrightarrow> length (overwrite_at buf off xs) = length buf"
  by (simp add: overwrite_at_def) 

lemma overwrite_at_snoc:
  assumes "0 \<le> off" "off + int (length xs) < int (length buf)"
  shows "(overwrite_at buf off xs)[nat (off + int (length xs)) := v] = overwrite_at buf off (xs @ [v])"
proof -
  let ?n = "nat off" and ?k = "length xs"
  let ?A = "take ?n buf @ xs"
  have n: "nat (off + int ?k) = ?n + ?k" using assms by (simp add: nat_add_distrib)
  have lt: "?n + ?k < length buf" using assms by linarith
  have d: "drop (?n + ?k) buf = buf ! (?n + ?k) # drop (Suc (?n + ?k)) buf"
    using lt by (simp add: Cons_nth_drop_Suc)
  have l: "length ?A = ?n + ?k" using lt by simp
  have "(?A @ buf ! (?n + ?k) # drop (Suc (?n + ?k)) buf)[length ?A := v]
          = ?A @ v # drop (Suc (?n + ?k)) buf"
    by (rule list_update_length)
  then show ?thesis
    unfolding overwrite_at_def n l d by simp
qed

lemma TRY_SET_BYTE_emitted:
  assumes "0 \<le> off" "off + int (length xs) < cap" "off + int (length xs) < int (length buf)"
  shows "TRY_SET_BYTE cap v (emitted buf off xs) = Continue (emitted buf off (xs @ [word_of_int v]))"
  using assms
  by (simp add: TRY_SET_BYTE_def emitted_def length_overwrite_at overwrite_at_snoc)

lemma TRY_SET_U16_LE_emitted:
  assumes "0 \<le> off" "off + int (length xs) + 1 < cap" "off + int (length xs) + 1 < int (length buf)"
  shows "TRY_SET_U16_LE cap v (emitted buf off xs) = Continue (emitted buf off (xs @ u16_le_bytes v))"
proof -
  let ?a = "ucast (word_of_int v :: uint16_t) :: uint8_t"
  let ?b = "ucast (drop_bit 8 (word_of_int v :: uint16_t)) :: uint8_t"
  have 1: "(overwrite_at buf off xs)[nat (off + int (length xs)) := ?a] = overwrite_at buf off (xs @ [?a])"
    using assms by (intro overwrite_at_snoc) auto
  have 2: "(overwrite_at buf off (xs @ [?a]))[nat (off + int (length (xs @ [?a]))) := ?b] = overwrite_at buf off ((xs @ [?a]) @ [?b])"
    using assms by (intro overwrite_at_snoc) auto
  have n: "nat (off + int (length xs)) + 1 = nat (off + int (length (xs @ [?a])))"
    using assms by simp
  have len: "length (overwrite_at buf off xs) = length buf"
    using assms by (intro length_overwrite_at) auto
  show ?thesis
    using assms 1 2 n len
    by (simp add: TRY_SET_U16_LE_def emitted_def u16_le_bytes_def)
qed

lemma length_u16_le_bytes [simp]: "length (u16_le_bytes v) = 2"
  by (simp add: u16_le_bytes_def)

lemma encode_emitted:
  assumes "0 \<le> off"
    and "off + int (length xs) + int (length (logical_address_bytes n e s)) \<le> cap"
    and "off + int (length xs) + int (length (logical_address_bytes n e s)) \<le> int (length buf)"
  shows "encode_plc5_logical_address cap n e s (emitted buf off xs)
           = Continue (emitted buf off (xs @ logical_address_bytes n e s))"
  using assms
  by (simp add: encode_plc5_logical_address_def logical_address_bytes_def field_bytes_def
       level_selector_def TRY_SET_BYTE_emitted TRY_SET_U16_LE_emitted split: if_splits)

lemma length_read_request_bytes:
  "int (length (read_request_bytes env t))
     = 10 + int (length (logical_address_bytes (data_file_num t) (data_file_elem t) (data_file_sub_elem t)))"
  by (simp add: read_request_bytes_def)

lemma read_request_body_emitted:
  assumes "0 \<le> ds" "elem_size t \<noteq> 0"
    and "ds + int (length xs) + 8
          + int (length (logical_address_bytes (data_file_num t) (data_file_elem t) (data_file_sub_elem t))) \<le> cap"
    and "ds + int (length xs) + 8
          + int (length (logical_address_bytes (data_file_num t) (data_file_elem t) (data_file_sub_elem t))) \<le> int (length buf)"
  shows "read_request_body t cap (emitted buf ds xs)
           = Continue (emitted buf ds
               (xs @ u16_le_bytes (uint (tsn t)) @ [0x01]
                 @ u16_le_bytes (uint (trans_offset t)) @ u16_le_bytes (c_div (base_tag_size t) 2)
                 @ logical_address_bytes (data_file_num t) (data_file_elem t) (data_file_sub_elem t)
                 @ [word_of_int (trans_size PLC5_WORD_RANGE_READ_MAX_PAYLOAD t)]))"
  using assms
  by (simp add: read_request_body_def PLC5_RANGE_READ_FUNC_def
        TRY_SET_BYTE_emitted TRY_SET_U16_LE_emitted encode_emitted)

lemma build_read_request_ok:
  assumes "0 \<le> ds"
    and "ds + int (length (read_request_bytes env t)) \<le> cap"
    and "ds + int (length (read_request_bytes env t)) \<le> int (length buf)"
    and "fst (pccc_eip_plc_get_tsn env) = PLCTAG_STATUS_OK"
    and "elem_size t \<noteq> 0"
  shows "build_read_request_callback env t buf cap ds de
           = Inr \<lparr>ret_rc = PLCTAG_STATUS_OK,
                  ret_tag = t\<lparr>tsn := snd (pccc_eip_plc_get_tsn env)\<rparr>,
                  ret_buffer = overwrite_at buf ds
                     (read_request_bytes env (t\<lparr>tsn := snd (pccc_eip_plc_get_tsn env)\<rparr>)),
                  ret_data_start = ds,
                  ret_data_end = ds + int (length (read_request_bytes env t)),
                  ret_started_request = False\<rparr>"
proof -
  let ?t1 = "t\<lparr>tsn := snd (pccc_eip_plc_get_tsn env)\<rparr>"
  let ?alen = "int (length (logical_address_bytes (data_file_num t) (data_file_elem t) (data_file_sub_elem t)))"
  have room: "ds + 10 + ?alen \<le> cap" "ds + 10 + ?alen \<le> int (length buf)"
    using assms(2,3) by (simp_all add: length_read_request_bytes)
  have "TRY_SET_BYTE cap (uint (PCCC_TYPED_CMD env)) (emitted buf ds [])
          = Continue (emitted buf ds ([] @ [word_of_int (uint (PCCC_TYPED_CMD env))]))"
    using assms(1) room by (intro TRY_SET_BYTE_emitted) simp_all
  then have s1: "TRY_SET_BYTE cap (uint (PCCC_TYPED_CMD env)) (buf, ds)
          = Continue (emitted buf ds [PCCC_TYPED_CMD env])"
    by (simp add: emitted_Nil)
  have s2: "TRY_SET_BYTE cap 0 (emitted buf ds [PCCC_TYPED_CMD env])
          = Continue (emitted buf ds ([PCCC_TYPED_CMD env] @ [word_of_int 0]))"
    using assms(1) room by (intro TRY_SET_BYTE_emitted) simp_all
  have s3: "read_request_body ?t1 cap (emitted buf ds [PCCC_TYPED_CMD env, 0])
          = Continue (emitted buf ds (read_request_bytes env ?t1))"
    unfolding read_request_bytes_def
    using assms(1,5) room
    by (subst read_request_body_emitted) simp_all
  show ?thesis
    using assms(4) s1 s2 s3
    by (simp add: build_read_request_callback_def Let_def)
       (simp add: emitted_def read_request_bytes_def)
qed

lemma write_copy_loop_emitted:
  assumes "0 \<le> toff + i" "toff + i + int k \<le> int (length d)"
    and "0 \<le> off" "off + int (length xs) + int k \<le> int (length buf)"
  shows "write_copy_loop k i d toff (emitted buf off xs)
           = Inr (emitted buf off (xs @ take k (drop (nat (toff + i)) d)))"
  using assms
proof (induction k arbitrary: i xs)
  case 0
  then show ?case by simp
next
  case (Suc k)
  let ?n = "nat (toff + i)"
  have n: "?n < length d" using Suc.prems by linarith
  have tk: "take (Suc k) (drop ?n d) = d ! ?n # take k (drop (Suc ?n) d)"
    using n by (simp add: take_Suc_conv_app_nth Cons_nth_drop_Suc [symmetric])
  have nx: "nat (toff + (i + 1)) = Suc ?n" using Suc.prems by linarith
  have len: "length (overwrite_at buf off xs) = length buf"
    using Suc.prems by (intro length_overwrite_at) auto
  have upd: "(overwrite_at buf off xs)[nat (off + int (length xs)) := d ! ?n]
               = overwrite_at buf off (xs @ [d ! ?n])"
    using Suc.prems by (intro overwrite_at_snoc) auto
  have step: "((overwrite_at buf off xs)[nat (off + int (length xs)) := d ! ?n], off + int (length xs) + 1)
               = emitted buf off (xs @ [d ! ?n])"
    using upd by (simp add: emitted_def)
  have ih: "write_copy_loop k (i + 1) d toff (emitted buf off (xs @ [d ! ?n]))
              = Inr (emitted buf off ((xs @ [d ! ?n]) @ take k (drop (nat (toff + (i + 1))) d)))"
    using Suc.prems by (intro Suc.IH) auto
  have "write_copy_loop (Suc k) i d toff (emitted buf off xs)
          = write_copy_loop k (i + 1) d toff (emitted buf off (xs @ [d ! ?n]))"
    using Suc.prems len step by (simp add: emitted_def algebra_simps)
  then show ?case
    using ih by (simp add: tk nx)
qed

lemma read_copy_loop_stored:
  assumes "0 \<le> ds + i + 4" "ds + i + 4 + int k \<le> int (length buf)"
    and "0 \<le> toff + i" "toff + i + int k \<le> int (length d)"
  shows "read_copy_loop k i buf ds toff d
           = Inr (overwrite_at d (toff + i) (take k (drop (nat (ds + i + 4)) buf)))"
  using assms
proof (induction k arbitrary: i d)
  case 0
  then show ?case by (simp add: overwrite_at_Nil)
next
  case (Suc k)
  let ?n = "nat (toff + i)" and ?m = "nat (ds + i + 4)"
  let ?d = "d[?n := buf ! ?m]"
  have n: "?n < length d" and m: "?m < length buf" using Suc.prems by linarith+
  have nx: "nat (toff + (i + 1)) = Suc ?n" "nat (ds + (i + 1) + 4) = Suc ?m"
    using Suc.prems by linarith+
  have tk: "take (Suc k) (drop ?m buf) = buf ! ?m # take k (drop (Suc ?m) buf)"
    using m by (simp add: Cons_nth_drop_Suc [symmetric])
  have ih: "read_copy_loop k (i + 1) buf ds toff ?d
              = Inr (overwrite_at ?d (toff + (i + 1)) (take k (drop (nat (ds + (i + 1) + 4)) buf)))"
    using Suc.prems by (intro Suc.IH) auto
  have lk: "length (take k (drop (Suc ?m) buf)) = k"
    using Suc.prems by simp
  have tn: "take (Suc ?n) ?d = take ?n d @ [buf ! ?m]"
    using n by (simp add: take_Suc_conv_app_nth)
  have ow: "overwrite_at ?d (toff + (i + 1)) (take k (drop (Suc ?m) buf))
          = overwrite_at d (toff + i) (buf ! ?m # take k (drop (Suc ?m) buf))"
    unfolding overwrite_at_def nx using tn by (simp add: lk)
  have "read_copy_loop (Suc k) i buf ds toff d = read_copy_loop k (i + 1) buf ds toff ?d"
    using Suc.prems by simp
  also have "\<dots> = Inr (overwrite_at ?d (toff + (i + 1)) (take k (drop (Suc ?m) buf)))"
    using ih unfolding nx .
  also have "\<dots> = Inr (overwrite_at d (toff + i) (take (Suc k) (drop ?m buf)))"
    unfolding ow tk ..
  finally show ?case .
qed

lemma read_copy_loop_overrun:
  assumes "0 \<le> ds + i + 4" "ds + i + 4 + int k \<le> int (length buf)"
    and "0 \<le> toff + i" "0 < k" "int (length d) < toff + i + int k"
  shows "read_copy_loop k i buf ds toff d = Inl Tag_Data_Out_Of_Bounds"
  using assms
proof (induction k arbitrary: i d)
  case 0
  then show ?case by simp
next
  case (Suc k)
  show ?case
  proof (cases "toff + i < int (length d)")
    case False
    then show ?thesis using Suc.prems by simp
  next
    case True
    let ?d = "d[nat (toff + i) := buf ! nat (ds + i + 4)]"
    have k: "0 < k" using True Suc.prems by linarith
    have "read_copy_loop k (i + 1) buf ds toff ?d = Inl Tag_Data_Out_Of_Bounds"
      using Suc.prems True k by (intro Suc.IH) auto
    then show ?thesis using Suc.prems True by simp
  qed
qed

lemma c_div_nonneg: "0 \<le> a \<Longrightarrow> 0 < b \<Longrightarrow> c_div a b = a div b"
  by (simp add: c_div_def sgn_if)

lemma write_request_header_emitted:
  assumes "0 \<le> off"
    and "off + int (length xs) + 7 \<le> cap"
    and "off + int (length xs) + 7 \<le> int (length buf)"
  shows "write_request_header t cap (emitted buf off xs)
           = Continue (emitted buf off
               (xs @ u16_le_bytes (uint (tsn t)) @ [0x00]
                 @ u16_le_bytes (c_div (uint (trans_offset t)) 2)
                 @ u16_le_bytes (c_div (base_tag_size t) 2)))"
  using assms
  by (simp add: write_request_header_def PLC5_RANGE_WRITE_FUNC_def
        TRY_SET_BYTE_emitted TRY_SET_U16_LE_emitted)

lemma build_write_request_ok:
  assumes "fst (pccc_eip_plc_get_tsn env) = PLCTAG_STATUS_OK"
    and "elem_size t \<noteq> 0"
    and "9 + int (length (logical_address_bytes (data_file_num t) (data_file_elem t) (data_file_sub_elem t))) \<le> cap"
    and "int (length (write_request_bytes env t)) \<le> int (length buf)"
    and "0 \<le> trans_size (write_payload_limit t) t"
    and "uint (trans_offset t) + trans_size (write_payload_limit t) t \<le> int (length (base_tag_data t))"
  shows "build_write_request_callback env t buf cap ds de
           = Inr \<lparr>ret_rc = PLCTAG_STATUS_OK,
                  ret_tag = t\<lparr>tsn := snd (pccc_eip_plc_get_tsn env),
                              trans_offset := trans_offset t + word_of_int (trans_size (write_payload_limit t) t)\<rparr>,
                  ret_buffer = overwrite_at buf 0
                     (write_request_bytes env (t\<lparr>tsn := snd (pccc_eip_plc_get_tsn env)\<rparr>)),
                  ret_data_start = int (length (write_request_bytes env t)),
                  ret_data_end = int (length (write_request_bytes env t)),
                  ret_started_request = False\<rparr>"
proof -
  let ?t1 = "t\<lparr>tsn := snd (pccc_eip_plc_get_tsn env)\<rparr>"
  let ?addr = "logical_address_bytes (data_file_num t) (data_file_elem t) (data_file_sub_elem t)"
  let ?ts = "trans_size (write_payload_limit t) t"
  let ?hdr = "[PCCC_TYPED_CMD env, 0] @ u16_le_bytes (uint (tsn ?t1)) @ [0x00]
                 @ u16_le_bytes (c_div (uint (trans_offset t)) 2)
                 @ u16_le_bytes (c_div (base_tag_size t) 2)"
  let ?pay = "take (nat ?ts) (drop (unat (trans_offset t)) (base_tag_data t))"
  have un: "int (unat (trans_offset t)) = uint (trans_offset t)"
    by (rule uint_nat [symmetric])
  have "nat ?ts \<le> length (base_tag_data t) - unat (trans_offset t)"
    using assms(5,6) un by linarith
  then have lp: "length ?pay = nat ?ts"
    by simp
  have lw: "int (length (write_request_bytes env t)) = 9 + int (length ?addr) + ?ts"
    unfolding write_request_bytes_def using lp assms(5) by simp
  have roomb: "9 + int (length ?addr) + ?ts \<le> int (length buf)"
    using assms(4) lw by simp
  have "TRY_SET_BYTE cap (uint (PCCC_TYPED_CMD env)) (emitted buf 0 [])
          = Continue (emitted buf 0 ([] @ [word_of_int (uint (PCCC_TYPED_CMD env))]))"
    using assms(3,5) roomb by (intro TRY_SET_BYTE_emitted) auto
  then have s1: "TRY_SET_BYTE cap (uint (PCCC_TYPED_CMD env)) (buf, 0)
          = Continue (emitted buf 0 [PCCC_TYPED_CMD env])"
    by (simp add: emitted_Nil)
  have s2: "TRY_SET_BYTE cap 0 (emitted buf 0 [PCCC_TYPED_CMD env])
          = Continue (emitted buf 0 ([PCCC_TYPED_CMD env] @ [word_of_int 0]))"
    using assms(3,5) roomb by (intro TRY_SET_BYTE_emitted) auto
  have s3: "write_request_header ?t1 cap (emitted buf 0 [PCCC_TYPED_CMD env, 0])
          = Continue (emitted buf 0 ?hdr)"
    using assms(3,5) roomb by (subst write_request_header_emitted) simp_all
  have s4: "encode_plc5_logical_address cap (data_file_num t) (data_file_elem t) (data_file_sub_elem t)
              (emitted buf 0 ?hdr) = Continue (emitted buf 0 (?hdr @ ?addr))"
    using assms(3,5) roomb by (intro encode_emitted) simp_all
  have pl: "PLC5_WORD_RANGE_WRITE_MAX_PAYLOAD - (snd (emitted buf 0 (?hdr @ ?addr)) - snd (emitted buf 0 ?hdr))
              = write_payload_limit t"
    by (simp add: emitted_def write_payload_limit_def)
  have s5: "write_copy_loop (nat ?ts) 0 (base_tag_data t) (uint (trans_offset t)) (emitted buf 0 (?hdr @ ?addr))
              = Inr (emitted buf 0 ((?hdr @ ?addr) @ take (nat ?ts) (drop (nat (uint (trans_offset t) + 0)) (base_tag_data t))))"
    using assms(5,6) roomb by (intro write_copy_loop_emitted) simp_all
  have ts1: "trans_size p ?t1 = trans_size p t" for p
    by (simp add: trans_size_def num_elems_def max_trans_size_def)
  have wb: "?hdr @ ?addr @ ?pay = write_request_bytes env ?t1"
    by (simp add: write_request_bytes_def write_payload_limit_def ts1)
  show ?thesis
    unfolding build_write_request_callback_def
    using assms(1,2,5) s1 s2 s3 s4 s5 pl lw lp
    apply (simp add: Let_def ts1)
    apply (simp add: emitted_def wb [symmetric])
    done
qed

section \<open>What a step that went on, or broke off, tells\<close>

lemma and_then_ContinueE:
  assumes "and_then x f = Continue c'"
  obtains c where "x = Continue c" "f c = Continue c'"
  using assms by (cases x) auto

lemma and_then_BreakE:
  assumes "and_then x f = Break e c'"
  obtains "x = Break e c'" | c where "x = Continue c" "f c = Break e c'"
  using assms by (cases x) auto

lemma TRY_SET_BYTE_Continue:
  "TRY_SET_BYTE cap v c = Continue c' \<Longrightarrow>
     snd c' = snd c + 1 \<and> fst c' = (fst c)[nat (snd c) := word_of_int v]
       \<and> 0 \<le> snd c \<and> snd c < int (length (fst c)) \<and> length (fst c') = length (fst c)"
  by (cases c) (auto simp: TRY_SET_BYTE_def split: if_splits)

lemma TRY_SET_BYTE_Break:
  "TRY_SET_BYTE cap v c = Break e c' \<Longrightarrow> e = PLCTAG_ERR_OUT_OF_BOUNDS"
  by (cases c) (auto simp: TRY_SET_BYTE_def split: if_splits)

lemma TRY_SET_U16_LE_Continue:
  "TRY_SET_U16_LE cap v c = Continue c' \<Longrightarrow> snd c' = snd c + 2"
  by (cases c) (auto simp: TRY_SET_U16_LE_def split: if_splits)

lemma TRY_SET_U16_LE_Break:
  "TRY_SET_U16_LE cap v c = Break e c' \<Longrightarrow> e = PLCTAG_ERR_OUT_OF_BOUNDS"
  by (cases c) (auto simp: TRY_SET_U16_LE_def split: if_splits)

lemma field_Continue:
  "(if v \<le> 0xFE then TRY_SET_BYTE cap v c
    else and_then (TRY_SET_BYTE cap 0xFF c) (TRY_SET_U16_LE cap v)) = Continue c'
   \<Longrightarrow> snd c' = snd c + int (length (field_bytes v))"
  by (auto simp: field_bytes_def elim!: and_then_ContinueE
        dest!: TRY_SET_BYTE_Continue TRY_SET_U16_LE_Continue split: if_splits)

lemma field_Break:
  "(if v \<le> 0xFE then TRY_SET_BYTE cap v c
    else and_then (TRY_SET_BYTE cap 0xFF c) (TRY_SET_U16_LE cap v)) = Break rc c'
   \<Longrightarrow> rc = PLCTAG_ERR_OUT_OF_BOUNDS"
  by (auto elim!: and_then_BreakE dest: TRY_SET_BYTE_Break TRY_SET_U16_LE_Break split: if_splits)

lemma selector_Continue:
  "(if s > 0 then TRY_SET_BYTE cap 0x0E c else TRY_SET_BYTE cap 0x06 c) = Continue c'
   \<Longrightarrow> snd c' = snd c + 1"
  by (auto dest!: TRY_SET_BYTE_Continue split: if_splits)

lemma selector_Break:
  "(if s > 0 then TRY_SET_BYTE cap 0x0E c else TRY_SET_BYTE cap 0x06 c) = Break rc c'
   \<Longrightarrow> rc = PLCTAG_ERR_OUT_OF_BOUNDS"
  by (auto dest: TRY_SET_BYTE_Break split: if_splits)

lemma encode_Continue:
  assumes "encode_plc5_logical_address cap n e s c = Continue c'"
  shows "snd c' = snd c + int (length (logical_address_bytes n e s))"
proof -
  obtain c1 c2 c3 where
    s1: "(if s > 0 then TRY_SET_BYTE cap 0x0E c else TRY_SET_BYTE cap 0x06 c) = Continue c1" and
    s2: "(if n \<le> 0xFE then TRY_SET_BYTE cap n c1
          else and_then (TRY_SET_BYTE cap 0xFF c1) (TRY_SET_U16_LE cap n)) = Continue c2" and
    s3: "(if e \<le> 0xFE then TRY_SET_BYTE cap e c2
          else and_then (TRY_SET_BYTE cap 0xFF c2) (TRY_SET_U16_LE cap e)) = Continue c3" and
    s4: "(if s \<ge> 0 then
            (if s \<le> 0xFE then TRY_SET_BYTE cap s c3
             else and_then (TRY_SET_BYTE cap 0xFF c3) (TRY_SET_U16_LE cap s))
          else Continue c3) = Continue c'"
    using assms unfolding encode_plc5_logical_address_def by (elim and_then_ContinueE) blast
  have o1: "snd c1 = snd c + 1" using s1 by (rule selector_Continue)
  have o2: "snd c2 = snd c1 + int (length (field_bytes n))" using s2 by (rule field_Continue)
  have o3: "snd c3 = snd c2 + int (length (field_bytes e))" using s3 by (rule field_Continue)
  have o4: "snd c' = snd c3 + int (length (if s \<ge> 0 then field_bytes s else []))"
  proof (cases "s \<ge> 0")
    case True
    then have "(if s \<le> 0xFE then TRY_SET_BYTE cap s c3
             else and_then (TRY_SET_BYTE cap 0xFF c3) (TRY_SET_U16_LE cap s)) = Continue c'"
      using s4 by simp
    then show ?thesis using True by (simp add: field_Continue)
  next
    case False
    then show ?thesis using s4 by simp
  qed
  show ?thesis
    using o1 o2 o3 o4 by (simp add: logical_address_bytes_def)
qed

lemma encode_Break:
  assumes "encode_plc5_logical_address cap n e s c = Break rc c'"
  shows "rc = PLCTAG_ERR_OUT_OF_BOUNDS"
proof -
  consider
    (sel) "(if s > 0 then TRY_SET_BYTE cap 0x0E c else TRY_SET_BYTE cap 0x06 c) = Break rc c'"
  | (num) c1 where "(if n \<le> 0xFE then TRY_SET_BYTE cap n c1
          else and_then (TRY_SET_BYTE cap 0xFF c1) (TRY_SET_U16_LE cap n)) = Break rc c'"
  | (elem) c2 where "(if e \<le> 0xFE then TRY_SET_BYTE cap e c2
          else and_then (TRY_SET_BYTE cap 0xFF c2) (TRY_SET_U16_LE cap e)) = Break rc c'"
  | (sub) c3 where "(if s \<ge> 0 then
            (if s \<le> 0xFE then TRY_SET_BYTE cap s c3
             else and_then (TRY_SET_BYTE cap 0xFF c3) (TRY_SET_U16_LE cap s))
          else Continue c3) = Break rc c'"
    using assms unfolding encode_plc5_logical_address_def by (elim and_then_BreakE) blast+
  then show ?thesis
  proof cases
    case sel
    then show ?thesis by (rule selector_Break)
  next
    case num
    then show ?thesis by (rule field_Break)
  next
    case elem
    then show ?thesis by (rule field_Break)
  next
    case sub
    then have "(if s \<le> 0xFE then TRY_SET_BYTE cap s c3
             else and_then (TRY_SET_BYTE cap 0xFF c3) (TRY_SET_U16_LE cap s)) = Break rc c'"
      by (cases "s \<ge> 0") simp_all
    then show ?thesis by (rule field_Break)
  qed
qed

lemma write_request_header_Continue:
  "write_request_header t cap c = Continue c' \<Longrightarrow> snd c' = snd c + 7"
  unfolding write_request_header_def
  by (auto elim!: and_then_ContinueE dest!: TRY_SET_BYTE_Continue TRY_SET_U16_LE_Continue)

lemma write_request_header_Break:
  "write_request_header t cap c = Break rc c' \<Longrightarrow> rc = PLCTAG_ERR_OUT_OF_BOUNDS"
  unfolding write_request_header_def
  by (auto elim!: and_then_BreakE dest: TRY_SET_BYTE_Break TRY_SET_U16_LE_Break)

lemma TRY_SET_BYTE_last:
  "TRY_SET_BYTE cap v c = Continue c' \<Longrightarrow>
     0 < snd c' \<and> snd c' \<le> int (length (fst c')) \<and> fst c' ! nat (snd c' - 1) = word_of_int v"
  by (cases c) (auto simp: TRY_SET_BYTE_def split: if_splits)

lemma read_request_body_Continue:
  assumes "read_request_body t cap c = Continue c'"
  shows "elem_size t \<noteq> 0
     \<and> snd c' = snd c + 8
          + int (length (logical_address_bytes (data_file_num t) (data_file_elem t) (data_file_sub_elem t)))
     \<and> 0 < snd c'
     \<and> snd c' \<le> int (length (fst c'))
     \<and> fst c' ! nat (snd c' - 1) = word_of_int (trans_size PLC5_WORD_RANGE_READ_MAX_PAYLOAD t)"
proof -
  obtain c1 c2 c3 c4 c5 where
    s1: "TRY_SET_U16_LE cap (uint (tsn t)) c = Continue c1" and
    s2: "TRY_SET_BYTE cap PLC5_RANGE_READ_FUNC c1 = Continue c2" and
    s3: "TRY_SET_U16_LE cap (uint (trans_offset t)) c2 = Continue c3" and
    s4: "TRY_SET_U16_LE cap (c_div (base_tag_size t) 2) c3 = Continue c4" and
    s5: "encode_plc5_logical_address cap (data_file_num t) (data_file_elem t) (data_file_sub_elem t) c4
           = Continue c5" and
    s6: "(if elem_size t = 0 then Fault Division_By_Zero
          else TRY_SET_BYTE cap (trans_size PLC5_WORD_RANGE_READ_MAX_PAYLOAD t) c5) = Continue c'"
    using assms unfolding read_request_body_def by (elim and_then_ContinueE) blast
  have e: "elem_size t \<noteq> 0" using s6 by (auto split: if_splits)
  then have s7: "TRY_SET_BYTE cap (trans_size PLC5_WORD_RANGE_READ_MAX_PAYLOAD t) c5 = Continue c'"
    using s6 by simp
  have "snd c1 = snd c + 2" "snd c2 = snd c1 + 1" "snd c3 = snd c2 + 2" "snd c4 = snd c3 + 2"
    "snd c5 = snd c4 + int (length (logical_address_bytes (data_file_num t) (data_file_elem t) (data_file_sub_elem t)))"
    "snd c' = snd c5 + 1"
    using s1 s2 s3 s4 s5 s7
    by (simp_all add: TRY_SET_U16_LE_Continue TRY_SET_BYTE_Continue encode_Continue)
  then have off: "snd c' = snd c + 8
          + int (length (logical_address_bytes (data_file_num t) (data_file_elem t) (data_file_sub_elem t)))"
    by simp
  show ?thesis
    using e off TRY_SET_BYTE_last [OF s7] by simp
qed

lemma read_request_body_Break:
  "read_request_body t cap c = Break rc c' \<Longrightarrow> rc = PLCTAG_ERR_OUT_OF_BOUNDS"
  unfolding read_request_body_def
  by (auto elim!: and_then_BreakE dest: TRY_SET_BYTE_Break TRY_SET_U16_LE_Break encode_Break
        split: if_splits)

lemma write_copy_loop_Inr:
  "write_copy_loop k i d toff c = Inr c' \<Longrightarrow> snd c' = snd c + int k"
  by (induction k arbitrary: i c) (auto split: if_splits)

lemma trans_size_tsn [simp]: "trans_size p (t\<lparr>tsn := v\<rparr>) = trans_size p t"
  by (simp add: trans_size_def num_elems_def max_trans_size_def)

lemma header_two_bytes_Continue:
  assumes "and_then (TRY_SET_BYTE cap v (buf, off)) (TRY_SET_BYTE cap w) = Continue c"
  shows "snd c = off + 2"
proof -
  obtain c0 where "TRY_SET_BYTE cap v (buf, off) = Continue c0" "TRY_SET_BYTE cap w c0 = Continue c"
    using assms by (elim and_then_ContinueE)
  then show ?thesis
    by (auto dest!: TRY_SET_BYTE_Continue)
qed

lemma header_two_bytes_Break:
  assumes "and_then (TRY_SET_BYTE cap v c0) (TRY_SET_BYTE cap w) = Break e c"
  shows "e = PLCTAG_ERR_OUT_OF_BOUNDS"
  using assms by (elim and_then_BreakE) (auto dest: TRY_SET_BYTE_Break)

lemma build_read_request_OK_inv:
  assumes "build_read_request_callback env t buf cap ds de = Inr r"
    and "ret_rc r = PLCTAG_STATUS_OK"
  shows "elem_size t \<noteq> 0
     \<and> ret_tag r = t\<lparr>tsn := snd (pccc_eip_plc_get_tsn env)\<rparr>
     \<and> ret_data_start r = ds
     \<and> ret_data_end r = ds + 10
          + int (length (logical_address_bytes (data_file_num t) (data_file_elem t) (data_file_sub_elem t)))
     \<and> ret_data_end r \<le> int (length (ret_buffer r))
     \<and> ret_buffer r ! nat (ret_data_end r - 1)
          = word_of_int (trans_size PLC5_WORD_RANGE_READ_MAX_PAYLOAD t)"
proof -
  let ?t1 = "t\<lparr>tsn := snd (pccc_eip_plc_get_tsn env)\<rparr>"
  show ?thesis
  proof (cases "and_then (TRY_SET_BYTE cap (uint (PCCC_TYPED_CMD env)) (buf, ds)) (TRY_SET_BYTE cap 0)")
    case (Fault x)
    then show ?thesis using assms by (simp add: build_read_request_callback_def)
  next
    case (Break e c)
    then have "e = PLCTAG_ERR_OUT_OF_BOUNDS" by (rule header_two_bytes_Break)
    then show ?thesis
      using assms Break by (simp add: build_read_request_callback_def return_error_def) auto
  next
    case c: (Continue c)
    then have off2: "snd c = ds + 2" by (rule header_two_bytes_Continue)
    show ?thesis
    proof (cases "uint16_t_cast (fst (pccc_eip_plc_get_tsn env)) = PLCTAG_STATUS_OK")
      case False
      then show ?thesis
        using assms c by (simp add: build_read_request_callback_def return_error_def Let_def) auto
    next
      case True
      show ?thesis
      proof (cases "read_request_body ?t1 cap c")
        case (Fault x)
        then show ?thesis using assms c True by (simp add: build_read_request_callback_def Let_def)
      next
        case (Break e c')
        then have "e = PLCTAG_ERR_OUT_OF_BOUNDS" by (rule read_request_body_Break)
        then show ?thesis
          using assms c True Break
          by (simp add: build_read_request_callback_def return_error_def Let_def) auto
      next
        case (Continue c')
        have r: "r = \<lparr>ret_rc = PLCTAG_STATUS_OK, ret_tag = ?t1, ret_buffer = fst c',
                       ret_data_start = ds, ret_data_end = snd c', ret_started_request = False\<rparr>"
          using assms c True Continue by (simp add: build_read_request_callback_def Let_def)
        show ?thesis
          using read_request_body_Continue [OF Continue] off2 by (auto simp: r)
      qed
    qed
  qed
qed

lemma build_write_request_OK_inv:
  assumes "build_write_request_callback env t buf cap ds de = Inr r"
    and "ret_rc r = PLCTAG_STATUS_OK"
  shows "elem_size t \<noteq> 0
     \<and> ret_tag r = t\<lparr>tsn := snd (pccc_eip_plc_get_tsn env),
                      trans_offset := trans_offset t + word_of_int (trans_size (write_payload_limit t) t)\<rparr>
     \<and> ret_data_start r = ret_data_end r
     \<and> ret_data_end r = 9
          + int (length (logical_address_bytes (data_file_num t) (data_file_elem t) (data_file_sub_elem t)))
          + int (nat (trans_size (write_payload_limit t) t))"
proof -
  let ?t1 = "t\<lparr>tsn := snd (pccc_eip_plc_get_tsn env)\<rparr>"
  let ?alen = "int (length (logical_address_bytes (data_file_num t) (data_file_elem t) (data_file_sub_elem t)))"
  show ?thesis
  proof (cases "and_then (TRY_SET_BYTE cap (uint (PCCC_TYPED_CMD env)) (buf, 0)) (TRY_SET_BYTE cap 0)")
    case (Fault x)
    then show ?thesis using assms by (simp add: build_write_request_callback_def)
  next
    case (Break e c)
    then have "e = PLCTAG_ERR_OUT_OF_BOUNDS" by (rule header_two_bytes_Break)
    then show ?thesis
      using assms Break by (simp add: build_write_request_callback_def return_error_def) auto
  next
    case c: (Continue c)
    then have off2: "snd c = 2" using header_two_bytes_Continue [OF c] by simp
    show ?thesis
    proof (cases "fst (pccc_eip_plc_get_tsn env) = PLCTAG_STATUS_OK")
      case False
      then show ?thesis
        using assms c by (simp add: build_write_request_callback_def return_error_def Let_def) auto
    next
      case True
      show ?thesis
      proof (cases "write_request_header ?t1 cap c")
        case (Fault x)
        then show ?thesis using assms c True by (simp add: build_write_request_callback_def Let_def)
      next
        case (Break e c')
        then have "e = PLCTAG_ERR_OUT_OF_BOUNDS" by (rule write_request_header_Break)
        then show ?thesis
          using assms c True Break
          by (simp add: build_write_request_callback_def return_error_def Let_def) auto
      next
        case c1: (Continue c1)
        have off9: "snd c1 = 9" using write_request_header_Continue [OF c1] off2 by simp
        show ?thesis
        proof (cases "encode_plc5_logical_address cap (data_file_num t) (data_file_elem t) (data_file_sub_elem t) c1")
          case (Fault x)
          then show ?thesis
            using assms c True c1 by (simp add: build_write_request_callback_def Let_def)
        next
          case (Break e c')
          then have "e = PLCTAG_ERR_OUT_OF_BOUNDS" by (rule encode_Break)
          then show ?thesis
            using assms c True c1 Break
            by (simp add: build_write_request_callback_def return_error_def Let_def) auto
        next
          case c2: (Continue c2)
          have offa: "snd c2 = 9 + ?alen" using encode_Continue [OF c2] off9 by simp
          have pl: "PLC5_WORD_RANGE_WRITE_MAX_PAYLOAD - (snd c2 - snd c1) = write_payload_limit t"
            using offa off9 by (simp add: write_payload_limit_def)
          show ?thesis
          proof (cases "elem_size t = 0")
            case True
            then show ?thesis
              using assms c \<open>fst (pccc_eip_plc_get_tsn env) = PLCTAG_STATUS_OK\<close> c1 c2
              by (simp add: build_write_request_callback_def Let_def)
          next
            case es: False
            show ?thesis
            proof (cases "write_copy_loop (nat (trans_size (write_payload_limit t) t)) 0
                            (base_tag_data t) (uint (trans_offset t)) c2")
              case (Inl x)
              then show ?thesis
                using assms c True c1 c2 es pl
                by (simp add: build_write_request_callback_def Let_def)
            next
              case (Inr c3)
              have o3: "snd c3 = snd c2 + int (nat (trans_size (write_payload_limit t) t))"
                using Inr by (rule write_copy_loop_Inr)
              have r: "r = \<lparr>ret_rc = PLCTAG_STATUS_OK,
                         ret_tag = ?t1\<lparr>trans_offset :=
                            trans_offset t + word_of_int (trans_size (write_payload_limit t) t)\<rparr>,
                         ret_buffer = fst c3, ret_data_start = snd c3, ret_data_end = snd c3,
                         ret_started_request = False\<rparr>"
                using assms c True c1 c2 es pl Inr
                by (simp add: build_write_request_callback_def Let_def)
              show ?thesis
                using es o3 offa by (simp add: r)
            qed
          qed
        qed
      qed
    qed
  qed
qed

section \<open>The size of a round and the stored payload\<close>

lemma length_logical_address_bytes:
  "2 \<le> length (logical_address_bytes n e s) \<and> length (logical_address_bytes n e s) \<le> 10"
  by (simp add: logical_address_bytes_def field_bytes_def)

lemma write_payload_limit_pos: "0 \<le> write_payload_limit t"
  using length_logical_address_bytes [of "data_file_num t" "data_file_elem t" "data_file_sub_elem t"]
  by (simp add: write_payload_limit_def PLC5_WORD_RANGE_WRITE_MAX_PAYLOAD_def)

lemma trans_size_bounds:
  assumes "elem_size t \<noteq> 0" "uint (trans_offset t) \<le> base_tag_size t" "0 \<le> p"
  shows "0 \<le> trans_size p t"
    and "trans_size p t mod uint (elem_size t) = 0"
    and "trans_size p t \<le> min p (base_tag_size t - uint (trans_offset t))"
proof -
  let ?m = "max_trans_size p t" and ?es = "uint (elem_size t)"
  have "?es \<noteq> 0" using assms(1) by (simp add: uint_0_iff)
  moreover have "0 \<le> ?es" by simp
  ultimately have es: "0 < ?es" by linarith
  have m0: "0 \<le> ?m" using assms(2,3) by (simp add: max_trans_size_def)
  have m: "?m = min p (base_tag_size t - uint (trans_offset t))"
    by (simp add: max_trans_size_def min_def)
  have ts: "trans_size p t = ?m div ?es * ?es"
    using es m0 by (simp add: trans_size_def num_elems_def c_div_nonneg)
  show "0 \<le> trans_size p t" using es m0 by (simp add: ts pos_imp_zdiv_nonneg_iff)
  show "trans_size p t mod ?es = 0" by (simp add: ts)
  have "?m div ?es * ?es \<le> ?m" using es by (simp add: minus_mod_eq_div_mult [symmetric])
  then show "trans_size p t \<le> min p (base_tag_size t - uint (trans_offset t))"
    using m ts by simp
qed

lemma handle_read_response_ok:
  assumes "4 \<le> de - ds" "0 \<le> ds" "de \<le> int (length buf)"
    and "buf ! nat ds = (PCCC_TYPED_CMD env OR PCCC_CMD_OK env)"
    and "buf ! nat (ds + 1) = 0"
    and "uint (trans_offset t) + (de - ds - 4) \<le> int (length (base_tag_data t))"
  shows "handle_read_response_callback env t buf ds de
           = Inr (if uint (trans_offset (payload_stored t buf ds de)) < base_tag_size t then
                    (if plc_start_request env \<noteq> PLCTAG_STATUS_OK
                     then return_error (plc_start_request env) (payload_stored t buf ds de) buf ds de True
                     else \<lparr>ret_rc = PLCTAG_STATUS_OK, ret_tag = payload_stored t buf ds de,
                           ret_buffer = buf, ret_data_start = de, ret_data_end = de,
                           ret_started_request = True\<rparr>)
                  else \<lparr>ret_rc = PLCTAG_STATUS_OK,
                        ret_tag = (payload_stored t buf ds de)
                                    \<lparr>trans_offset := 0, base_tag_status := PLCTAG_STATUS_OK\<rparr>,
                        ret_buffer = buf, ret_data_start = de, ret_data_end = de,
                        ret_started_request = False\<rparr>)"
proof -
  have "read_copy_loop (nat (de - ds - 4)) 0 buf ds (uint (trans_offset t)) (base_tag_data t)
          = Inr (overwrite_at (base_tag_data t) (uint (trans_offset t) + 0)
                   (take (nat (de - ds - 4)) (drop (nat (ds + 0 + 4)) buf)))"
    using assms by (intro read_copy_loop_stored) auto
  then have loop: "read_copy_loop (nat (de - ds - 4)) 0 buf ds (uint (trans_offset t)) (base_tag_data t)
          = Inr (overwrite_at (base_tag_data t) (uint (trans_offset t)) (response_payload buf ds de))"
    by (simp add: response_payload_def)
  have rd: "0 \<le> ds \<and> ds < int (length buf)" "ds + 1 < int (length buf)" "\<not> de - ds < 4"
    using assms(1,2,3) by auto
  show ?thesis
    unfolding handle_read_response_callback_def Let_def
    using rd assms(4,5) loop
    by (simp add: payload_stored_def)
qed

lemma uint_byte_of_small:
  "0 \<le> n \<Longrightarrow> n \<le> 244 \<Longrightarrow> uint (word_of_int n :: uint8_t) = n"
  by (simp add: uint_word_of_int)

lemma build_read_request_keeps_offset:
  assumes "build_read_request_callback env t buf cap ds de = Inr r"
  shows "trans_offset (ret_tag r) = trans_offset t"
  using assms
  by (auto simp: build_read_request_callback_def return_error_def Let_def
        split: exec.splits if_splits)

lemma handle_read_response_OK_inv:
  assumes "handle_read_response_callback env t buf ds de = Inr q" "ret_rc q = PLCTAG_STATUS_OK"
  shows "trans_offset (ret_tag q)
           = (if uint (trans_offset t + word_of_int (de - ds - 4)) < base_tag_size t
              then trans_offset t + word_of_int (de - ds - 4) else 0)"
  using assms
  by (auto simp: handle_read_response_callback_def return_error_def Let_def
        split: sum.splits if_splits)

lemma handle_write_response_OK_inv:
  assumes "handle_write_response_callback env t buf ds de = Inr q" "ret_rc q = PLCTAG_STATUS_OK"
  shows "trans_offset (ret_tag q)
           = (if uint (trans_offset t) < base_tag_size t then trans_offset t else 0)"
  using assms
  by (auto simp: handle_write_response_callback_def return_error_def Let_def
        split: if_splits)

lemma build_read_request_OK_requested:
  assumes "build_read_request_callback env t buf cap ds de = Inr r"
    and "ret_rc r = PLCTAG_STATUS_OK"
  shows "requested_byte_count r = word_of_int (trans_size PLC5_WORD_RANGE_READ_MAX_PAYLOAD t)"
  using build_read_request_OK_inv [OF assms] unfolding requested_byte_count_def by blast

section \<open>The callbacks on the small tag\<close>

lemma small_read_request:
  "build_read_request_callback scenario_env small_tag (replicate 13 0) 13 0 0
     = Inr \<lparr>ret_rc = PLCTAG_STATUS_OK, ret_tag = small_tag\<lparr>tsn := 0x1234\<rparr>,
            ret_buffer = [0x0F, 0, 0x34, 0x12, 0x01, 0x02, 0, 0x03, 0, 0x06, 0x07, 0x03, 0x04],
            ret_data_start = 0, ret_data_end = 13, ret_started_request = False\<rparr>"
  by code_simp

lemma small_write_request:
  "build_write_request_callback scenario_env small_tag (replicate 16 0) 16 0 0
     = Inr \<lparr>ret_rc = PLCTAG_STATUS_OK, ret_tag = small_tag\<lparr>tsn := 0x1234, trans_offset := 6\<rparr>,
            ret_buffer = [0x0F, 0, 0x34, 0x12, 0x00, 0x01, 0, 0x03, 0, 0x06, 0x07, 0x03, 3, 4, 5, 6],
            ret_data_start = 16, ret_data_end = 16, ret_started_request = False\<rparr>"
  by code_simp

lemma small_read_response:
  "handle_read_response_callback scenario_env small_tag
       (response_packet scenario_env 0x34 0x12 [9, 8]) 0 6
     = Inr \<lparr>ret_rc = PLCTAG_STATUS_OK,
            ret_tag = small_tag\<lparr>base_tag_data := [1, 2, 9, 8, 5, 6], trans_offset := 4\<rparr>,
            ret_buffer = [0x4F, 0, 0x34, 0x12, 9, 8],
            ret_data_start = 6, ret_data_end = 6, ret_started_request = True\<rparr>"
  by code_simp

lemma zero_round_read_request:
  "build_read_request_callback scenario_env stalled_tag
       (replicate 13 0) 13 0 0
     = Inr \<lparr>ret_rc = PLCTAG_STATUS_OK,
            ret_tag = stalled_tag\<lparr>tsn := 0x1234\<rparr>,
            ret_buffer = [0x0F, 0, 0x34, 0x12, 0x01, 0x04, 0, 0x03, 0, 0x06, 0x07, 0x03, 0x00],
            ret_data_start = 0, ret_data_end = 13, ret_started_request = False\<rparr>"
  by code_simp

lemma zero_round_size:
  "trans_size PLC5_WORD_RANGE_READ_MAX_PAYLOAD stalled_tag = 0"
  by code_simp

text \<open>
  A TSN allocation that fails with the code -39: the read builder returns the
  \<open>uint16_t\<close> cast of the code and stores the \<open>int8_t\<close> cast of that in the status.
\<close>

lemma failed_tsn_read_request:
  "build_read_request_callback (scenario_env\<lparr>pccc_eip_plc_get_tsn := (- 39, 0)\<rparr>) small_tag
       (replicate 13 0) 13 0 0
     = Inr \<lparr>ret_rc = 65497, ret_tag = small_tag\<lparr>base_tag_status := - 39\<rparr>,
            ret_buffer = [0x0F, 0, 0, 0, 0, 0, 0, 0, 0, 0, 0, 0, 0],
            ret_data_start = 0, ret_data_end = 0, ret_started_request = False\<rparr>"
  by code_simp

section \<open>One round of a read\<close>

lemma read_round_built:
  assumes "elem_size t \<noteq> 0"
    and "fst (pccc_eip_plc_get_tsn env) = PLCTAG_STATUS_OK"
    and "0 \<le> ds"
    and "ds + 10 + int (length (logical_address_bytes (data_file_num t) (data_file_elem t) (data_file_sub_elem t))) \<le> cap"
    and "ds + 10 + int (length (logical_address_bytes (data_file_num t) (data_file_elem t) (data_file_sub_elem t))) \<le> int (length buf)"
  shows "\<exists>r. build_read_request_callback env t buf cap ds de = Inr r
           \<and> ret_rc r = PLCTAG_STATUS_OK
           \<and> ret_tag r = t\<lparr>tsn := snd (pccc_eip_plc_get_tsn env)\<rparr>
           \<and> requested_byte_count r = word_of_int (trans_size PLC5_WORD_RANGE_READ_MAX_PAYLOAD t)"
proof -
  let ?r = "\<lparr>ret_rc = PLCTAG_STATUS_OK,
                  ret_tag = t\<lparr>tsn := snd (pccc_eip_plc_get_tsn env)\<rparr>,
                  ret_buffer = overwrite_at buf ds
                     (read_request_bytes env (t\<lparr>tsn := snd (pccc_eip_plc_get_tsn env)\<rparr>)),
                  ret_data_start = ds,
                  ret_data_end = ds + int (length (read_request_bytes env t)),
                  ret_started_request = False\<rparr>"
  have b: "build_read_request_callback env t buf cap ds de = Inr ?r"
    using assms by (intro build_read_request_ok) (simp_all add: length_read_request_bytes)
  have "requested_byte_count ?r = word_of_int (trans_size PLC5_WORD_RANGE_READ_MAX_PAYLOAD t)"
    by (rule build_read_request_OK_requested [OF b]) simp
  then show ?thesis using b by simp
qed

lemma response_packet_payload:
  "response_payload (response_packet env x y p) 0 (4 + int (length p)) = p"
  by (simp add: response_payload_def response_packet_def)

lemma read_round_handled:
  assumes "uint (trans_offset t) + int (length p) \<le> int (length (base_tag_data t))"
    and "plc_start_request env = PLCTAG_STATUS_OK"
  shows "handle_read_response_callback env t (response_packet env x y p) 0 (4 + int (length p))
           = Inr (if uint (trans_offset t + word_of_int (int (length p))) < base_tag_size t then
                    \<lparr>ret_rc = PLCTAG_STATUS_OK,
                     ret_tag = t\<lparr>base_tag_data := overwrite_at (base_tag_data t) (uint (trans_offset t)) p,
                                 trans_offset := trans_offset t + word_of_int (int (length p))\<rparr>,
                     ret_buffer = response_packet env x y p,
                     ret_data_start = 4 + int (length p), ret_data_end = 4 + int (length p),
                     ret_started_request = True\<rparr>
                  else
                    \<lparr>ret_rc = PLCTAG_STATUS_OK,
                     ret_tag = t\<lparr>base_tag_data := overwrite_at (base_tag_data t) (uint (trans_offset t)) p,
                                 trans_offset := 0, base_tag_status := PLCTAG_STATUS_OK\<rparr>,
                     ret_buffer = response_packet env x y p,
                     ret_data_start = 4 + int (length p), ret_data_end = 4 + int (length p),
                     ret_started_request = False\<rparr>)"
proof -
  let ?buf = "response_packet env x y p" and ?de = "4 + int (length p)"
  have 1: "4 \<le> ?de - 0" "(0::int) \<le> 0" "?de \<le> int (length ?buf)"
    by (simp_all add: response_packet_def)
  have 2: "?buf ! nat 0 = (PCCC_TYPED_CMD env OR PCCC_CMD_OK env)" "?buf ! nat (0 + 1) = 0"
    by (simp_all add: response_packet_def)
  have 3: "uint (trans_offset t) + (?de - 0 - 4) \<le> int (length (base_tag_data t))"
    using assms(1) by simp
  have ps: "payload_stored t ?buf 0 ?de
              = t\<lparr>base_tag_data := overwrite_at (base_tag_data t) (uint (trans_offset t)) p,
                  trans_offset := trans_offset t + word_of_int (int (length p))\<rparr>"
    by (simp add: payload_stored_def response_packet_payload)
  show ?thesis
    unfolding handle_read_response_ok [OF 1 2 3] ps
    using assms(2) by simp
qed

lemma three_payloads_stored:
  assumes "length d = 500" "length p1 = 244" "length p2 = 244" "length p3 = 12"
  shows "overwrite_at (overwrite_at (overwrite_at d 0 p1) 244 p2) 488 p3 = p1 @ p2 @ p3"
  using assms by (simp add: overwrite_at_def)

section \<open>The logical address encoder\<close>

text \<open>
  C1. The claim: the encoder emits \<open>0x0E\<close> as its first byte exactly when a sub-element
  is present (\<open>sub_elem \<ge> 0\<close>) and \<open>0x06\<close> otherwise, so that (300, 3, 0) encodes to
  \<open>[0x0E, 0xFF, 0x2C, 0x01, 0x03, 0x00]\<close>. The code tests \<open>data_file_sub_elem > 0\<close> at
  line 644 and \<open>data_file_sub_elem >= 0\<close> at line 668: at sub-element 0 it emits the
  sub-element byte, and in front of it the selector \<open>0x06\<close> that announces levels 1 and 2
  only. This is the encoder run on (300, 3, 0).
\<close>

theorem encode_sub_elem_zero_selector:
  "encode_plc5_logical_address 6 300 3 0 (replicate 6 0, 0)
     = Continue ([0x06, 0xFF, 0x2C, 0x01, 0x03, 0x00], 6)"
  by code_simp

text \<open>
  C8. Each of the file number, the element number and, when it is not negative, the
  sub-element is emitted as one byte when its value is at most \<open>0xFE\<close> and as \<open>0xFF\<close>
  followed by the value as a 16-bit little-endian integer otherwise (\<open>field_bytes\<close>);
  the fields follow the selector byte in this order, from the cursor's offset on, whenever
  the capacity and the buffer have room for them. And (7, 3, -1) encodes to exactly
  \<open>[0x06, 0x07, 0x03]\<close>.
\<close>

theorem encode_fields_one_byte_or_escaped:
  assumes "0 \<le> off"
    and "off + int (length (logical_address_bytes n e s)) \<le> cap"
    and "off + int (length (logical_address_bytes n e s)) \<le> int (length buf)"
  shows "encode_plc5_logical_address cap n e s (buf, off)
           = Continue
               (overwrite_at buf off
                  (level_selector s # field_bytes n @ field_bytes e
                     @ (if s \<ge> 0 then field_bytes s else [])),
                off + int (length (logical_address_bytes n e s)))
         \<and> field_bytes n = (if n \<le> 0xFE then [word_of_int n] else 0xFF # u16_le_bytes n)
         \<and> encode_plc5_logical_address 3 7 3 (- 1) ([0, 0, 0], 0)
             = Continue ([0x06, 0x07, 0x03], 3)"
proof -
  have "encode_plc5_logical_address cap n e s (emitted buf off [])
          = Continue (emitted buf off ([] @ logical_address_bytes n e s))"
    using assms by (intro encode_emitted) simp_all
  then have general: "encode_plc5_logical_address cap n e s (buf, off)
          = Continue (overwrite_at buf off (logical_address_bytes n e s),
                      off + int (length (logical_address_bytes n e s)))"
    by (simp add: emitted_Nil) (simp add: emitted_def)
  have example: "encode_plc5_logical_address 3 7 3 (- 1) ([0, 0, 0], 0)
                   = Continue ([0x06, 0x07, 0x03], 3)"
    by code_simp
  show ?thesis
    using general example by (simp add: logical_address_bytes_def field_bytes_def)
qed

theorem encode_fields_one_byte_or_escaped_witness:
  "(0::int) \<le> 0
   \<and> 0 + int (length (logical_address_bytes 300 3 255)) \<le> 8
   \<and> 0 + int (length (logical_address_bytes 300 3 255)) \<le> int (length (replicate 8 (0::uint8_t)))
   \<and> encode_plc5_logical_address 8 300 3 255 (replicate 8 0, 0)
       = Continue ([0x0E, 0xFF, 0x2C, 0x01, 0x03, 0xFF, 0xFF, 0x00], 8)"
proof -
  have h1: "(0::int) \<le> 0" by simp
  have h2: "0 + int (length (logical_address_bytes 300 3 255)) \<le> 8"
    by (simp add: logical_address_bytes_def field_bytes_def)
  have h3: "0 + int (length (logical_address_bytes 300 3 255)) \<le> int (length (replicate 8 (0::uint8_t)))"
    by (simp add: logical_address_bytes_def field_bytes_def)
  have "overwrite_at (replicate 8 0) 0
          (level_selector 255 # field_bytes 300 @ field_bytes 3 @ (if (255::int) \<ge> 0 then field_bytes 255 else []))
        = [0x0E, 0xFF, 0x2C, 0x01, 0x03, 0xFF, 0xFF, 0x00]"
    by (simp add: overwrite_at_def level_selector_def field_bytes_def u16_le_bytes_def)
  then show ?thesis
    using h1 h2 h3 encode_fields_one_byte_or_escaped [OF h1 h2 h3]
    by (simp add: logical_address_bytes_def field_bytes_def)
qed

section \<open>Request building\<close>

text \<open>
  C2. The claim: both request builders write the word offset of the transfer as the
  byte offset divided by 2. The write builder does (line 505, \<open>tag->trans_offset/2\<close>); the
  read builder writes \<open>tag->trans_offset\<close> itself at line 341, under the comment
  ``offset of the transfer in words''. This is the read builder run on the tag of the
  scenario at byte offset 244: bytes 5 and 6 of the request are \<open>0xF4, 0x00\<close>, the value
  244, where the claim has 122; bytes 7 and 8 are the word count 250, which is halved.
\<close>

theorem read_request_offset_field_not_halved:
  "build_read_request_callback scenario_env (scenario_tag\<lparr>trans_offset := 244\<rparr>)
       (replicate 13 0) 13 0 0
     = Inr \<lparr>ret_rc = PLCTAG_STATUS_OK,
            ret_tag = scenario_tag\<lparr>trans_offset := 244, tsn := 0x1234\<rparr>,
            ret_buffer = [0x0F, 0x00, 0x34, 0x12, 0x01, 0xF4, 0x00, 0xFA, 0x00, 0x06, 0x07, 0x03, 0xF4],
            ret_data_start = 0, ret_data_end = 13, ret_started_request = False\<rparr>"
  by code_simp

text \<open>
  C3. For every total size, every transfer offset that does not exceed it and every
  element size greater than 0, the transfer size of a round is a non-negative multiple of
  the element size and at most the smaller of the payload limit and the bytes that remain:
  in every read request that is built, this is the byte count in the trailing byte, with
  the limit 244; in every write request that is built, this is the number of payload bytes
  behind the 9 header bytes and the encoded address, with the limit 244 minus the length
  of the encoded address.
\<close>

theorem round_size_whole_elements_within_budget:
  assumes "0 < uint (elem_size t)"
    and "uint (trans_offset t) \<le> base_tag_size t"
  shows "(build_read_request_callback env t buf cap ds de = Inr r \<and> ret_rc r = PLCTAG_STATUS_OK \<longrightarrow>
            0 \<le> uint (requested_byte_count r)
            \<and> uint (requested_byte_count r) mod uint (elem_size t) = 0
            \<and> uint (requested_byte_count r) \<le> min 244 (base_tag_size t - uint (trans_offset t)))
       \<and> (build_write_request_callback env t buf cap ds de = Inr w \<and> ret_rc w = PLCTAG_STATUS_OK \<longrightarrow>
            0 \<le> ret_data_end w - (9 + int (length (logical_address_bytes
                     (data_file_num t) (data_file_elem t) (data_file_sub_elem t))))
            \<and> (ret_data_end w - (9 + int (length (logical_address_bytes
                     (data_file_num t) (data_file_elem t) (data_file_sub_elem t)))))
                 mod uint (elem_size t) = 0
            \<and> ret_data_end w - (9 + int (length (logical_address_bytes
                     (data_file_num t) (data_file_elem t) (data_file_sub_elem t))))
                 \<le> min (244 - int (length (logical_address_bytes
                             (data_file_num t) (data_file_elem t) (data_file_sub_elem t))))
                        (base_tag_size t - uint (trans_offset t)))"
proof (intro conjI impI)
  have es: "elem_size t \<noteq> 0" using assms(1) by auto
  let ?alen = "int (length (logical_address_bytes (data_file_num t) (data_file_elem t) (data_file_sub_elem t)))"
  {
    assume a: "build_read_request_callback env t buf cap ds de = Inr r \<and> ret_rc r = PLCTAG_STATUS_OK"
    let ?n = "trans_size PLC5_WORD_RANGE_READ_MAX_PAYLOAD t"
    have p0: "0 \<le> PLC5_WORD_RANGE_READ_MAX_PAYLOAD"
      by (simp add: PLC5_WORD_RANGE_READ_MAX_PAYLOAD_def)
    have b: "0 \<le> ?n" "?n mod uint (elem_size t) = 0"
         "?n \<le> min PLC5_WORD_RANGE_READ_MAX_PAYLOAD (base_tag_size t - uint (trans_offset t))"
      by (rule trans_size_bounds [OF es assms(2) p0])+
    have "ret_buffer r ! nat (ret_data_end r - 1) = word_of_int ?n"
      using build_read_request_OK_inv [OF conjunct1 [OF a] conjunct2 [OF a]] by blast
    then have "requested_byte_count r = word_of_int ?n"
      unfolding requested_byte_count_def .
    moreover have "?n \<le> 244" using b(3) by (simp add: PLC5_WORD_RANGE_READ_MAX_PAYLOAD_def)
    ultimately have u: "uint (requested_byte_count r) = ?n"
      using b(1) by (simp add: uint_byte_of_small)
    show "0 \<le> uint (requested_byte_count r)" by simp
    show "uint (requested_byte_count r) mod uint (elem_size t) = 0" using u b(2) by simp
    show "uint (requested_byte_count r) \<le> min 244 (base_tag_size t - uint (trans_offset t))"
      using u b(3) by (simp add: PLC5_WORD_RANGE_READ_MAX_PAYLOAD_def)
  }
  {
    assume a: "build_write_request_callback env t buf cap ds de = Inr w \<and> ret_rc w = PLCTAG_STATUS_OK"
    let ?n = "trans_size (write_payload_limit t) t"
    have b: "0 \<le> ?n" "?n mod uint (elem_size t) = 0"
         "?n \<le> min (write_payload_limit t) (base_tag_size t - uint (trans_offset t))"
      by (rule trans_size_bounds [OF es assms(2) write_payload_limit_pos])+
    have "ret_data_end w = 9 + ?alen + int (nat ?n)"
      using build_write_request_OK_inv [OF conjunct1 [OF a] conjunct2 [OF a]] by blast
    then have u: "ret_data_end w - (9 + ?alen) = ?n" using b(1) by simp
    show "0 \<le> ret_data_end w - (9 + ?alen)" using u b(1) by simp
    show "(ret_data_end w - (9 + ?alen)) mod uint (elem_size t) = 0" using u b(2) by simp
    show "ret_data_end w - (9 + ?alen) \<le> min (244 - ?alen) (base_tag_size t - uint (trans_offset t))"
      using u b(3) by (simp add: write_payload_limit_def PLC5_WORD_RANGE_WRITE_MAX_PAYLOAD_def)
  }
qed

theorem round_size_whole_elements_within_budget_witness:
  "0 < uint (elem_size small_tag)
   \<and> uint (trans_offset small_tag) \<le> base_tag_size small_tag
   \<and> ret_rc (projr (build_read_request_callback scenario_env small_tag (replicate 13 0) 13 0 0))
       = PLCTAG_STATUS_OK
   \<and> uint (requested_byte_count
        (projr (build_read_request_callback scenario_env small_tag (replicate 13 0) 13 0 0))) mod 2 = 0
   \<and> uint (requested_byte_count
        (projr (build_read_request_callback scenario_env small_tag (replicate 13 0) 13 0 0))) \<le> 4
   \<and> ret_rc (projr (build_write_request_callback scenario_env small_tag (replicate 16 0) 16 0 0))
       = PLCTAG_STATUS_OK
   \<and> (ret_data_end (projr (build_write_request_callback scenario_env small_tag (replicate 16 0) 16 0 0))
        - (9 + 3)) mod 2 = 0
   \<and> ret_data_end (projr (build_write_request_callback scenario_env small_tag (replicate 16 0) 16 0 0))
        - (9 + 3) \<le> 4"
proof -
  have h1: "0 < uint (elem_size small_tag)" by (simp add: small_tag_def)
  have h2: "uint (trans_offset small_tag) \<le> base_tag_size small_tag" by (simp add: small_tag_def)
  have a: "int (length (logical_address_bytes (data_file_num small_tag) (data_file_elem small_tag)
                 (data_file_sub_elem small_tag))) = 3"
    by (simp add: small_tag_def logical_address_bytes_def field_bytes_def)
  have s: "uint (elem_size small_tag) = 2" "base_tag_size small_tag - uint (trans_offset small_tag) = 4"
    by (simp_all add: small_tag_def)
  show ?thesis
    using h1 h2
      round_size_whole_elements_within_budget [OF h1 h2, where env = scenario_env
        and buf = "replicate 13 0" and cap = 13 and ds = 0 and de = 0
        and r = "projr (build_read_request_callback scenario_env small_tag (replicate 13 0) 13 0 0)"
        and w = "projr (build_write_request_callback scenario_env small_tag (replicate 13 0) 13 0 0)"]
      round_size_whole_elements_within_budget [OF h1 h2, where env = scenario_env
        and buf = "replicate 16 0" and cap = 16 and ds = 0 and de = 0
        and r = "projr (build_read_request_callback scenario_env small_tag (replicate 16 0) 16 0 0)"
        and w = "projr (build_write_request_callback scenario_env small_tag (replicate 16 0) 16 0 0)"]
    unfolding a s
    by (simp add: small_read_request small_write_request)
qed

text \<open>
  C6. The claim: the read request builder fails with a value-out-of-range error when the
  element size is 0 or when the byte budget rounded down to whole elements is 0 while bytes
  remain, and produces no request then. The builder has no such check. On the stalled tag
  (4-byte elements, 2 bytes remaining) it returns \<open>PLCTAG_STATUS_OK\<close> with a complete
  request whose trailing byte count is 0.
\<close>

theorem read_request_zero_round_counterexample:
  "elem_size stalled_tag \<noteq> 0
   \<and> trans_size PLC5_WORD_RANGE_READ_MAX_PAYLOAD stalled_tag = 0
   \<and> uint (trans_offset stalled_tag) < base_tag_size stalled_tag
   \<and> build_read_request_callback scenario_env stalled_tag (replicate 13 0) 13 0 0
       = Inr \<lparr>ret_rc = PLCTAG_STATUS_OK,
              ret_tag = stalled_tag\<lparr>tsn := 0x1234\<rparr>,
              ret_buffer = [0x0F, 0, 0x34, 0x12, 0x01, 0x04, 0, 0x03, 0, 0x06, 0x07, 0x03, 0x00],
              ret_data_start = 0, ret_data_end = 13, ret_started_request = False\<rparr>"
  using zero_round_read_request zero_round_size
  by (simp add: stalled_tag_def small_tag_def)

text \<open>
  C6, as the code has it. Whenever the element size is not 0 and the byte budget rounded
  down to whole elements is 0 while bytes remain, the read request builder, given a TSN
  and room in the packet buffer, returns \<open>PLCTAG_STATUS_OK\<close> and produces a complete
  request whose trailing byte count is 0, leaving the tag's status as it was.
\<close>

theorem read_request_zero_round_still_built:
  assumes "elem_size t \<noteq> 0"
    and "trans_size PLC5_WORD_RANGE_READ_MAX_PAYLOAD t = 0"
    and "uint (trans_offset t) < base_tag_size t"
    and "fst (pccc_eip_plc_get_tsn env) = PLCTAG_STATUS_OK"
    and "0 \<le> ds"
    and "ds + int (length (read_request_bytes env t)) \<le> cap"
    and "ds + int (length (read_request_bytes env t)) \<le> int (length buf)"
  shows "\<exists>r. build_read_request_callback env t buf cap ds de = Inr r
            \<and> ret_rc r = PLCTAG_STATUS_OK
            \<and> requested_byte_count r = 0
            \<and> ret_data_end r = ds + int (length (read_request_bytes env t))
            \<and> base_tag_status (ret_tag r) = base_tag_status t"
proof -
  let ?r = "\<lparr>ret_rc = PLCTAG_STATUS_OK,
                  ret_tag = t\<lparr>tsn := snd (pccc_eip_plc_get_tsn env)\<rparr>,
                  ret_buffer = overwrite_at buf ds
                     (read_request_bytes env (t\<lparr>tsn := snd (pccc_eip_plc_get_tsn env)\<rparr>)),
                  ret_data_start = ds,
                  ret_data_end = ds + int (length (read_request_bytes env t)),
                  ret_started_request = False\<rparr>"
  have b: "build_read_request_callback env t buf cap ds de = Inr ?r"
    using assms(5,6,7,4,1) by (rule build_read_request_ok)
  have "requested_byte_count ?r = word_of_int (trans_size PLC5_WORD_RANGE_READ_MAX_PAYLOAD t)"
    by (rule build_read_request_OK_requested [OF b]) simp
  then have "requested_byte_count ?r = 0"
    unfolding assms(2) by simp
  then show ?thesis
    using b by simp
qed

theorem read_request_zero_round_still_built_witness:
  "elem_size stalled_tag \<noteq> 0
   \<and> trans_size PLC5_WORD_RANGE_READ_MAX_PAYLOAD stalled_tag = 0
   \<and> uint (trans_offset stalled_tag) < base_tag_size stalled_tag
   \<and> fst (pccc_eip_plc_get_tsn scenario_env) = PLCTAG_STATUS_OK
   \<and> (0::int) \<le> 0
   \<and> 0 + int (length (read_request_bytes scenario_env stalled_tag)) \<le> 13
   \<and> 0 + int (length (read_request_bytes scenario_env stalled_tag)) \<le> int (length (replicate 13 (0::uint8_t)))
   \<and> (\<exists>r. build_read_request_callback scenario_env stalled_tag (replicate 13 0) 13 0 0 = Inr r
            \<and> ret_rc r = PLCTAG_STATUS_OK
            \<and> requested_byte_count r = 0
            \<and> ret_data_end r = 0 + int (length (read_request_bytes scenario_env stalled_tag))
            \<and> base_tag_status (ret_tag r) = base_tag_status stalled_tag)"
proof -
  have l: "int (length (read_request_bytes scenario_env stalled_tag)) = 13"
    by (simp add: length_read_request_bytes stalled_tag_def small_tag_def
          logical_address_bytes_def field_bytes_def)
  have h1: "elem_size stalled_tag \<noteq> 0" by (simp add: stalled_tag_def small_tag_def)
  have h2: "trans_size PLC5_WORD_RANGE_READ_MAX_PAYLOAD stalled_tag = 0" by (rule zero_round_size)
  have h3: "uint (trans_offset stalled_tag) < base_tag_size stalled_tag"
    by (simp add: stalled_tag_def small_tag_def)
  have h4: "fst (pccc_eip_plc_get_tsn scenario_env) = PLCTAG_STATUS_OK"
    by (simp add: scenario_env_def)
  have h5: "(0::int) \<le> 0" by simp
  have h6: "0 + int (length (read_request_bytes scenario_env stalled_tag)) \<le> 13"
    using l by simp
  have h7: "0 + int (length (read_request_bytes scenario_env stalled_tag))
              \<le> int (length (replicate 13 (0::uint8_t)))"
    using l by simp
  show ?thesis
    using h1 h2 h3 h4 h6 h7
      read_request_zero_round_still_built [OF h1 h2 h3 h4 h5 h6 h7, where de = 0]
    by blast
qed

section \<open>When the transfer offset moves\<close>

text \<open>
  C7. The write engine moves \<open>trans_offset\<close> on inside the build callback, by the number
  of payload bytes it has just copied into the request (the bytes behind the 9 header
  bytes and the encoded address), before any response exists. The read engine leaves
  \<open>trans_offset\<close> alone when it builds a request; its handler moves it on by the length
  of the payload actually received, the response length minus 4, whatever count the
  request asked for (and resets it to 0 once it has reached the size). The write handler
  never moves it on: it keeps it or resets it to 0.
\<close>

theorem offset_moves_at_write_build_and_read_handle:
  "(build_write_request_callback env t buf cap ds de = Inr w \<and> ret_rc w = PLCTAG_STATUS_OK
      \<and> uint (trans_offset t) \<le> base_tag_size t \<longrightarrow>
        0 \<le> ret_data_end w - (9 + int (length (logical_address_bytes
                 (data_file_num t) (data_file_elem t) (data_file_sub_elem t))))
        \<and> trans_offset (ret_tag w)
            = trans_offset t + word_of_int (ret_data_end w - (9 + int (length (logical_address_bytes
                 (data_file_num t) (data_file_elem t) (data_file_sub_elem t))))))
   \<and> (build_read_request_callback env t buf cap ds de = Inr r \<longrightarrow>
        trans_offset (ret_tag r) = trans_offset t)
   \<and> (handle_read_response_callback env t buf ds de = Inr q \<and> ret_rc q = PLCTAG_STATUS_OK \<longrightarrow>
        trans_offset (ret_tag q)
          = (if uint (trans_offset t + word_of_int (de - ds - 4)) < base_tag_size t
             then trans_offset t + word_of_int (de - ds - 4) else 0))
   \<and> (handle_write_response_callback env t buf ds de = Inr v \<and> ret_rc v = PLCTAG_STATUS_OK \<longrightarrow>
        trans_offset (ret_tag v)
          = (if uint (trans_offset t) < base_tag_size t then trans_offset t else 0))"
proof (intro conjI impI)
  let ?alen = "int (length (logical_address_bytes (data_file_num t) (data_file_elem t) (data_file_sub_elem t)))"
  {
    assume a: "build_write_request_callback env t buf cap ds de = Inr w \<and> ret_rc w = PLCTAG_STATUS_OK
                \<and> uint (trans_offset t) \<le> base_tag_size t"
    let ?n = "trans_size (write_payload_limit t) t"
    have inv: "elem_size t \<noteq> 0"
         "ret_tag w = t\<lparr>tsn := snd (pccc_eip_plc_get_tsn env), trans_offset := trans_offset t + word_of_int ?n\<rparr>"
         "ret_data_end w = 9 + ?alen + int (nat ?n)"
      using build_write_request_OK_inv [OF conjunct1 [OF a] conjunct1 [OF conjunct2 [OF a]]] by blast+
    have "0 \<le> ?n" using a by (intro trans_size_bounds(1) [OF inv(1) _ write_payload_limit_pos]) simp
    then have u: "ret_data_end w - (9 + ?alen) = ?n" using inv(3) by simp
    show "0 \<le> ret_data_end w - (9 + ?alen)" using u \<open>0 \<le> ?n\<close> by simp
    show "trans_offset (ret_tag w) = trans_offset t + word_of_int (ret_data_end w - (9 + ?alen))"
      unfolding u by (simp add: inv(2))
  }
  show "trans_offset (ret_tag r) = trans_offset t"
    if "build_read_request_callback env t buf cap ds de = Inr r"
    using that by (rule build_read_request_keeps_offset)
  show "trans_offset (ret_tag q)
          = (if uint (trans_offset t + word_of_int (de - ds - 4)) < base_tag_size t
             then trans_offset t + word_of_int (de - ds - 4) else 0)"
    if "handle_read_response_callback env t buf ds de = Inr q \<and> ret_rc q = PLCTAG_STATUS_OK"
    using that handle_read_response_OK_inv [of env t buf ds de q] by simp
  show "trans_offset (ret_tag v)
          = (if uint (trans_offset t) < base_tag_size t then trans_offset t else 0)"
    if "handle_write_response_callback env t buf ds de = Inr v \<and> ret_rc v = PLCTAG_STATUS_OK"
    using that handle_write_response_OK_inv [of env t buf ds de v] by simp
qed

theorem offset_moves_at_write_build_and_read_handle_witness:
  "ret_rc (projr (build_write_request_callback scenario_env small_tag (replicate 16 0) 16 0 0))
       = PLCTAG_STATUS_OK
   \<and> uint (trans_offset small_tag) \<le> base_tag_size small_tag
   \<and> trans_offset small_tag = 2
   \<and> ret_data_end (projr (build_write_request_callback scenario_env small_tag (replicate 16 0) 16 0 0))
        - (9 + 3) = 4
   \<and> trans_offset (ret_tag (projr
        (build_write_request_callback scenario_env small_tag (replicate 16 0) 16 0 0))) = 2 + 4
   \<and> requested_byte_count
        (projr (build_read_request_callback scenario_env small_tag (replicate 13 0) 13 0 0)) = 4
   \<and> trans_offset (ret_tag (projr
        (build_read_request_callback scenario_env small_tag (replicate 13 0) 13 0 0))) = 2
   \<and> ret_rc (projr (handle_read_response_callback scenario_env small_tag
        (response_packet scenario_env 0x34 0x12 [9, 8]) 0 6)) = PLCTAG_STATUS_OK
   \<and> trans_offset (ret_tag (projr (handle_read_response_callback scenario_env small_tag
        (response_packet scenario_env 0x34 0x12 [9, 8]) 0 6))) = 2 + 2"
proof -
  have a: "int (length (logical_address_bytes (data_file_num small_tag) (data_file_elem small_tag)
                 (data_file_sub_elem small_tag))) = 3"
    by (simp add: small_tag_def logical_address_bytes_def field_bytes_def)
  have s: "trans_offset small_tag = 2" "base_tag_size small_tag = 6"
    by (simp_all add: small_tag_def)
  show ?thesis
    using
      offset_moves_at_write_build_and_read_handle [where env = scenario_env and t = small_tag
        and buf = "replicate 16 0" and cap = 16 and ds = 0 and de = 0
        and w = "projr (build_write_request_callback scenario_env small_tag (replicate 16 0) 16 0 0)"
        and r = "projr (build_read_request_callback scenario_env small_tag (replicate 16 0) 16 0 0)"
        and q = "projr (handle_read_response_callback scenario_env small_tag (replicate 16 0) 0 0)"
        and v = "projr (handle_write_response_callback scenario_env small_tag (replicate 16 0) 0 0)"]
      offset_moves_at_write_build_and_read_handle [where env = scenario_env and t = small_tag
        and buf = "response_packet scenario_env 0x34 0x12 [9, 8]" and cap = 6 and ds = 0 and de = 6
        and q = "projr (handle_read_response_callback scenario_env small_tag
                   (response_packet scenario_env 0x34 0x12 [9, 8]) 0 6)"]
    unfolding a
    by (simp add: small_read_request small_write_request small_read_response s
          requested_byte_count_def)
qed

section \<open>Response handling\<close>

text \<open>
  C4. For every response handed to the read or to the write response handler: a response
  shorter than 4 bytes makes the handler return \<open>PLCTAG_ERR_TOO_SMALL\<close>; a response of
  at least 4 bytes (lying inside the packet buffer) whose byte 0 is not
  \<open>PCCC_TYPED_CMD | PCCC_CMD_OK\<close>, or whose status byte 1 is not zero, makes it return
  \<open>PLCTAG_ERR_BAD_REPLY\<close>. In each of these cases the tag the handler leaves behind is
  the tag it was given with only \<open>base_tag.status\<close> set to the error, so \<open>trans_offset\<close>
  and the data buffer are what they were; the packet buffer and both positions are
  untouched and no request is started.
\<close>

theorem malformed_response_rejected:
  "(de - ds < 4 \<longrightarrow>
      handle_read_response_callback env t buf ds de
        = Inr \<lparr>ret_rc = PLCTAG_ERR_TOO_SMALL, ret_tag = t\<lparr>base_tag_status := PLCTAG_ERR_TOO_SMALL\<rparr>,
               ret_buffer = buf, ret_data_start = ds, ret_data_end = de,
               ret_started_request = False\<rparr>
      \<and> handle_write_response_callback env t buf ds de
        = Inr \<lparr>ret_rc = PLCTAG_ERR_TOO_SMALL, ret_tag = t\<lparr>base_tag_status := PLCTAG_ERR_TOO_SMALL\<rparr>,
               ret_buffer = buf, ret_data_start = ds, ret_data_end = de,
               ret_started_request = False\<rparr>)
   \<and> (4 \<le> de - ds \<and> 0 \<le> ds \<and> de \<le> int (length buf)
        \<and> (buf ! nat ds \<noteq> (PCCC_TYPED_CMD env OR PCCC_CMD_OK env) \<or> buf ! nat (ds + 1) \<noteq> 0) \<longrightarrow>
      handle_read_response_callback env t buf ds de
        = Inr \<lparr>ret_rc = PLCTAG_ERR_BAD_REPLY, ret_tag = t\<lparr>base_tag_status := PLCTAG_ERR_BAD_REPLY\<rparr>,
               ret_buffer = buf, ret_data_start = ds, ret_data_end = de,
               ret_started_request = False\<rparr>
      \<and> handle_write_response_callback env t buf ds de
        = Inr \<lparr>ret_rc = PLCTAG_ERR_BAD_REPLY, ret_tag = t\<lparr>base_tag_status := PLCTAG_ERR_BAD_REPLY\<rparr>,
               ret_buffer = buf, ret_data_start = ds, ret_data_end = de,
               ret_started_request = False\<rparr>)
   \<and> trans_offset (t\<lparr>base_tag_status := e\<rparr>) = trans_offset t
   \<and> base_tag_data (t\<lparr>base_tag_status := e\<rparr>) = base_tag_data t"
proof -
  have small: "de - ds < 4 \<Longrightarrow>
      handle_read_response_callback env t buf ds de
        = Inr (return_error PLCTAG_ERR_TOO_SMALL t buf ds de False)
      \<and> handle_write_response_callback env t buf ds de
        = Inr (return_error PLCTAG_ERR_TOO_SMALL t buf ds de False)"
    by (simp add: handle_read_response_callback_def handle_write_response_callback_def)
  have bad: "handle_read_response_callback env t buf ds de
        = Inr (return_error PLCTAG_ERR_BAD_REPLY t buf ds de False)
      \<and> handle_write_response_callback env t buf ds de
        = Inr (return_error PLCTAG_ERR_BAD_REPLY t buf ds de False)"
    if "4 \<le> de - ds" "0 \<le> ds" "de \<le> int (length buf)"
      "buf ! nat ds \<noteq> (PCCC_TYPED_CMD env OR PCCC_CMD_OK env) \<or> buf ! nat (ds + 1) \<noteq> 0"
  proof -
    have rd: "0 \<le> ds \<and> ds < int (length buf)" "ds + 1 < int (length buf)" "\<not> de - ds < 4"
      using that(1,2,3) by auto
    show ?thesis
      using rd that(4)
      by (auto simp: handle_read_response_callback_def handle_write_response_callback_def Let_def)
  qed
  show ?thesis
    using small bad by (simp add: return_error_def)
qed

theorem malformed_response_rejected_witness:
  "(5::int) - 2 < 4
   \<and> ret_rc (projr (handle_read_response_callback scenario_env small_tag [0x4F, 0, 0, 0, 9] 2 5))
       = PLCTAG_ERR_TOO_SMALL
   \<and> (4::int) \<le> 5 - 0 \<and> (0::int) \<le> 0 \<and> (5::int) \<le> int (length [0x4F, 0x10, 0, 0, 9 :: uint8_t])
   \<and> [0x4F, 0x10, 0, 0, 9 :: uint8_t] ! nat (0 + 1) \<noteq> 0
   \<and> handle_read_response_callback scenario_env small_tag [0x4F, 0x10, 0, 0, 9] 0 5
       = Inr \<lparr>ret_rc = PLCTAG_ERR_BAD_REPLY, ret_tag = small_tag,
              ret_buffer = [0x4F, 0x10, 0, 0, 9], ret_data_start = 0, ret_data_end = 5,
              ret_started_request = False\<rparr>
   \<and> handle_write_response_callback scenario_env small_tag [0x0F, 0, 0, 0] 0 4
       = Inr \<lparr>ret_rc = PLCTAG_ERR_BAD_REPLY, ret_tag = small_tag,
              ret_buffer = [0x0F, 0, 0, 0], ret_data_start = 0, ret_data_end = 4,
              ret_started_request = False\<rparr>"
  using malformed_response_rejected [where de = 5 and ds = 2 and env = scenario_env and t = small_tag
            and buf = "[0x4F, 0, 0, 0, 9]" and e = PLCTAG_ERR_TOO_SMALL]
        malformed_response_rejected [where de = 5 and ds = 0 and env = scenario_env and t = small_tag
            and buf = "[0x4F, 0x10, 0, 0, 9]" and e = PLCTAG_ERR_BAD_REPLY]
        malformed_response_rejected [where de = 4 and ds = 0 and env = scenario_env and t = small_tag
            and buf = "[0x0F, 0, 0, 0]" and e = PLCTAG_ERR_BAD_REPLY]
  by (simp add: small_tag_def scenario_env_def)

text \<open>
  C9. The read response handler copies the whole payload of a response with a valid
  header (its length minus 4 bytes) into the tag's data buffer from \<open>trans_offset\<close> on,
  and nothing in it compares \<open>trans_offset\<close> plus that length with the size of the
  buffer first: where the payload fits, the data buffer is the old one with the payload
  stored at \<open>trans_offset\<close>; where a non-empty payload reaches beyond the end of the data
  buffer, the copy loop indexes past that end.
\<close>

theorem read_response_copy_unchecked:
  assumes "4 \<le> de - ds" "0 \<le> ds" "de \<le> int (length buf)"
    and "buf ! nat ds = (PCCC_TYPED_CMD env OR PCCC_CMD_OK env)"
    and "buf ! nat (ds + 1) = 0"
  shows "(uint (trans_offset t) + (de - ds - 4) \<le> int (length (base_tag_data t)) \<longrightarrow>
            (\<exists>r. handle_read_response_callback env t buf ds de = Inr r
               \<and> base_tag_data (ret_tag r)
                   = overwrite_at (base_tag_data t) (uint (trans_offset t)) (response_payload buf ds de)
               \<and> length (response_payload buf ds de) = nat (de - ds - 4)))
       \<and> (4 < de - ds \<and> int (length (base_tag_data t)) < uint (trans_offset t) + (de - ds - 4) \<longrightarrow>
            handle_read_response_callback env t buf ds de = Inl Tag_Data_Out_Of_Bounds)"
proof (intro conjI impI)
  assume inb: "uint (trans_offset t) + (de - ds - 4) \<le> int (length (base_tag_data t))"
  have len: "length (response_payload buf ds de) = nat (de - ds - 4)"
    using assms(1,2,3) by (simp add: response_payload_def)
  show "\<exists>r. handle_read_response_callback env t buf ds de = Inr r
               \<and> base_tag_data (ret_tag r)
                   = overwrite_at (base_tag_data t) (uint (trans_offset t)) (response_payload buf ds de)
               \<and> length (response_payload buf ds de) = nat (de - ds - 4)"
    using len
    by (simp add: handle_read_response_ok [OF assms inb] payload_stored_def return_error_def)
next
  assume over: "4 < de - ds \<and> int (length (base_tag_data t)) < uint (trans_offset t) + (de - ds - 4)"
  have "read_copy_loop (nat (de - ds - 4)) 0 buf ds (uint (trans_offset t)) (base_tag_data t)
          = Inl Tag_Data_Out_Of_Bounds"
    using assms over by (intro read_copy_loop_overrun) auto
  moreover have "0 \<le> ds \<and> ds < int (length buf)" "ds + 1 < int (length buf)" "\<not> de - ds < 4"
    using assms(1,2,3) by auto
  ultimately show "handle_read_response_callback env t buf ds de = Inl Tag_Data_Out_Of_Bounds"
    using assms(4,5) by (simp add: handle_read_response_callback_def Let_def)
qed

theorem read_response_copy_unchecked_witness:
  "(4::int) \<le> 10 - 0 \<and> (0::int) \<le> 0
   \<and> (10::int) \<le> int (length (response_packet scenario_env 0x34 0x12 [9, 8, 7, 6, 5, 4]))
   \<and> response_packet scenario_env 0x34 0x12 [9, 8, 7, 6, 5, 4] ! nat 0
       = (PCCC_TYPED_CMD scenario_env OR PCCC_CMD_OK scenario_env)
   \<and> response_packet scenario_env 0x34 0x12 [9, 8, 7, 6, 5, 4] ! nat (0 + 1) = 0
   \<and> (4::int) < 10 - 0
   \<and> int (length (base_tag_data small_tag)) < uint (trans_offset small_tag) + (10 - 0 - 4)
   \<and> handle_read_response_callback scenario_env small_tag
         (response_packet scenario_env 0x34 0x12 [9, 8, 7, 6, 5, 4]) 0 10
       = Inl Tag_Data_Out_Of_Bounds
   \<and> uint (trans_offset small_tag) + (6 - 0 - 4) \<le> int (length (base_tag_data small_tag))
   \<and> base_tag_data (ret_tag (projr (handle_read_response_callback scenario_env small_tag
         (response_packet scenario_env 0x34 0x12 [9, 8]) 0 6)))
       = [1, 2, 9, 8, 5, 6]"
proof -
  let ?big = "response_packet scenario_env 0x34 0x12 [9, 8, 7, 6, 5, 4]"
  let ?fit = "response_packet scenario_env 0x34 0x12 [9, 8]"
  have b1: "(4::int) \<le> 10 - 0" and b2: "(0::int) \<le> 0" by simp_all
  have b3: "(10::int) \<le> int (length ?big)" by (simp add: response_packet_def)
  have b4: "?big ! nat 0 = (PCCC_TYPED_CMD scenario_env OR PCCC_CMD_OK scenario_env)"
    by (simp add: response_packet_def)
  have b5: "?big ! nat (0 + 1) = 0" by (simp add: response_packet_def)
  have f1: "(4::int) \<le> 6 - 0" by simp
  have f3: "(6::int) \<le> int (length ?fit)" by (simp add: response_packet_def)
  have f4: "?fit ! nat 0 = (PCCC_TYPED_CMD scenario_env OR PCCC_CMD_OK scenario_env)"
    by (simp add: response_packet_def)
  have f5: "?fit ! nat (0 + 1) = 0" by (simp add: response_packet_def)
  have ow: "overwrite_at (base_tag_data small_tag) (uint (trans_offset small_tag)) (response_payload ?fit 0 6)
              = [1, 2, 9, 8, 5, 6]"
    by (simp add: overwrite_at_def response_payload_def response_packet_def small_tag_def)
  have sm: "int (length (base_tag_data small_tag)) = 6" "uint (trans_offset small_tag) = 2"
    by (simp_all add: small_tag_def)
  show ?thesis
    using read_response_copy_unchecked [OF b1 b2 b3 b4 b5, where t = small_tag]
          read_response_copy_unchecked [OF f1 b2 f3 f4 f5, where t = small_tag]
          b3 b4 b5 ow sm
    by auto
qed

section \<open>The control surface\<close>

text \<open>
  C10. Every call of the integer attribute getter first sets the tag's status to
  \<open>PLCTAG_STATUS_OK\<close>: what the call returns and leaves behind does not depend on the
  status recorded before. With a recognised name (\<open>str_cmp_i\<close> gives 0 against
  \<open>elem_size\<close> or \<open>elem_count\<close>) the status that \<open>plc5_tag_status\<close> reports afterwards
  is \<open>PLCTAG_STATUS_OK\<close>, whatever error was recorded before, and the result is the
  attribute; with any other name the status becomes \<open>PLCTAG_ERR_UNSUPPORTED\<close> and the
  result is the caller's default value.
\<close>

theorem get_int_attrib_overwrites_status:
  "plc5_get_int_attrib cmp (t\<lparr>base_tag_status := s\<rparr>) name d
     = plc5_get_int_attrib cmp (t\<lparr>base_tag_status := PLCTAG_STATUS_OK\<rparr>) name d
   \<and> (cmp name ''elem_size'' = 0 \<longrightarrow>
        plc5_get_int_attrib cmp t name d
          = (t\<lparr>base_tag_status := PLCTAG_STATUS_OK\<rparr>, uint (elem_size t)))
   \<and> (cmp name ''elem_size'' \<noteq> 0 \<and> cmp name ''elem_count'' = 0 \<longrightarrow>
        plc5_get_int_attrib cmp t name d
          = (t\<lparr>base_tag_status := PLCTAG_STATUS_OK\<rparr>, uint (elem_count t)))
   \<and> (cmp name ''elem_size'' = 0 \<or> cmp name ''elem_count'' = 0 \<longrightarrow>
        plc5_tag_status (fst (plc5_get_int_attrib cmp t name d)) = PLCTAG_STATUS_OK)
   \<and> (cmp name ''elem_size'' \<noteq> 0 \<and> cmp name ''elem_count'' \<noteq> 0 \<longrightarrow>
        plc5_get_int_attrib cmp t name d
          = (t\<lparr>base_tag_status := PLCTAG_ERR_UNSUPPORTED\<rparr>, d))"
  by (simp add: plc5_get_int_attrib_def plc5_tag_status_def Let_def)

theorem get_int_attrib_overwrites_status_witness:
  "base_tag_status small_tag = PLCTAG_ERR_BAD_REPLY
   \<and> (\<lambda>a b. if a = b then 0 else 1) ''elem_count'' ''elem_count'' = (0::int)
   \<and> plc5_tag_status (fst (plc5_get_int_attrib (\<lambda>a b. if a = b then 0 else 1) small_tag ''elem_count'' 7))
       = PLCTAG_STATUS_OK
   \<and> snd (plc5_get_int_attrib (\<lambda>a b. if a = b then 0 else 1) small_tag ''elem_count'' 7) = 3
   \<and> plc5_get_int_attrib (\<lambda>a b. if a = b then 0 else 1) small_tag ''elem_type'' 7
       = (small_tag\<lparr>base_tag_status := PLCTAG_ERR_UNSUPPORTED\<rparr>, 7)"
  using get_int_attrib_overwrites_status
          [where cmp = "\<lambda>a b. if a = b then 0 else 1" and t = small_tag
             and s = PLCTAG_STATUS_OK and name = "''elem_count''" and d = 7]
        get_int_attrib_overwrites_status
          [where cmp = "\<lambda>a b. if a = b then 0 else 1" and t = small_tag
             and s = PLCTAG_STATUS_OK and name = "''elem_type''" and d = 7]
  by (simp add: small_tag_def plc5_tag_status_def)

section \<open>The scenario of 500 bytes\<close>

text \<open>
  C5. With a total size of 500 bytes, 2-byte elements and the payload limit 244, a read
  that starts at offset 0 and receives a full response to every request takes exactly
  three rounds. The requests ask for 244, 244 and 12 bytes, with \<open>trans_offset\<close> at 0,
  244 and 488 when they are built; the handler starts a further request after the first
  and after the second response; the third response takes \<open>trans_offset\<close> to 500, upon
  which the handler starts no request, resets \<open>trans_offset\<close> to 0 and sets the tag's
  status to \<open>PLCTAG_STATUS_OK\<close>, the data buffer holding the three payloads in order.
\<close>

theorem read_scenario_three_rounds:
  assumes "base_tag_size t = 500" "elem_size t = 2" "trans_offset t = 0"
    and "length (base_tag_data t) = 500"
    and "fst (pccc_eip_plc_get_tsn env) = PLCTAG_STATUS_OK"
    and "plc_start_request env = PLCTAG_STATUS_OK"
    and "length p1 = 244" "length p2 = 244" "length p3 = 12"
    and "0 \<le> ds"
    and "ds + 10 + int (length (logical_address_bytes (data_file_num t) (data_file_elem t) (data_file_sub_elem t))) \<le> cap"
    and "ds + 10 + int (length (logical_address_bytes (data_file_num t) (data_file_elem t) (data_file_sub_elem t))) \<le> int (length buf)"
  shows "\<exists>r1 q1 r2 q2 r3 q3.
      build_read_request_callback env t buf cap ds de = Inr r1
    \<and> ret_rc r1 = PLCTAG_STATUS_OK \<and> trans_offset (ret_tag r1) = 0 \<and> requested_byte_count r1 = 244
    \<and> handle_read_response_callback env (ret_tag r1) (response_packet env x1 y1 p1) 0 248 = Inr q1
    \<and> ret_rc q1 = PLCTAG_STATUS_OK \<and> ret_started_request q1 \<and> trans_offset (ret_tag q1) = 244
    \<and> build_read_request_callback env (ret_tag q1) buf cap ds de = Inr r2
    \<and> ret_rc r2 = PLCTAG_STATUS_OK \<and> trans_offset (ret_tag r2) = 244 \<and> requested_byte_count r2 = 244
    \<and> handle_read_response_callback env (ret_tag r2) (response_packet env x2 y2 p2) 0 248 = Inr q2
    \<and> ret_rc q2 = PLCTAG_STATUS_OK \<and> ret_started_request q2 \<and> trans_offset (ret_tag q2) = 488
    \<and> build_read_request_callback env (ret_tag q2) buf cap ds de = Inr r3
    \<and> ret_rc r3 = PLCTAG_STATUS_OK \<and> trans_offset (ret_tag r3) = 488 \<and> requested_byte_count r3 = 12
    \<and> trans_offset (payload_stored (ret_tag r3) (response_packet env x3 y3 p3) 0 16) = 500
    \<and> handle_read_response_callback env (ret_tag r3) (response_packet env x3 y3 p3) 0 16 = Inr q3
    \<and> ret_rc q3 = PLCTAG_STATUS_OK \<and> \<not> ret_started_request q3
    \<and> trans_offset (ret_tag q3) = 0 \<and> base_tag_status (ret_tag q3) = PLCTAG_STATUS_OK
    \<and> base_tag_data (ret_tag q3) = p1 @ p2 @ p3"
proof -
  let ?v = "snd (pccc_eip_plc_get_tsn env)"
  let ?d = "base_tag_data t"
  define t1 where "t1 = t\<lparr>tsn := ?v\<rparr>"
  define s1 where "s1 = t1\<lparr>base_tag_data := overwrite_at ?d 0 p1, trans_offset := 244\<rparr>"
  define t2 where "t2 = s1\<lparr>tsn := ?v\<rparr>"
  define s2 where "s2 = t2\<lparr>base_tag_data := overwrite_at (overwrite_at ?d 0 p1) 244 p2,
                           trans_offset := 488\<rparr>"
  define t3 where "t3 = s2\<lparr>tsn := ?v\<rparr>"
  define s3 where "s3 = t3\<lparr>base_tag_data := p1 @ p2 @ p3, trans_offset := 0,
                           base_tag_status := PLCTAG_STATUS_OK\<rparr>"
  note defs = t1_def s1_def t2_def s2_def t3_def s3_def
  have l1: "length (overwrite_at ?d 0 p1) = 500"
    using assms(4,7) by (simp add: overwrite_at_def)
  have l2: "length (overwrite_at (overwrite_at ?d 0 p1) 244 p2) = 500"
    using l1 assms(8) by (simp add: overwrite_at_def)
  have ts1: "trans_size PLC5_WORD_RANGE_READ_MAX_PAYLOAD t = 244"
    using assms(1,2,3)
    by (simp add: trans_size_def num_elems_def max_trans_size_def c_div_def
          PLC5_WORD_RANGE_READ_MAX_PAYLOAD_def)
  have ts2: "trans_size PLC5_WORD_RANGE_READ_MAX_PAYLOAD s1 = 244"
    using assms(1,2)
    by (simp add: defs trans_size_def num_elems_def max_trans_size_def c_div_def
          PLC5_WORD_RANGE_READ_MAX_PAYLOAD_def)
  have ts3: "trans_size PLC5_WORD_RANGE_READ_MAX_PAYLOAD s2 = 12"
    using assms(1,2)
    by (simp add: defs trans_size_def num_elems_def max_trans_size_def c_div_def
          PLC5_WORD_RANGE_READ_MAX_PAYLOAD_def)
  obtain r1 where r1: "build_read_request_callback env t buf cap ds de = Inr r1"
      "ret_rc r1 = PLCTAG_STATUS_OK" "ret_tag r1 = t1" "requested_byte_count r1 = 244"
    using read_round_built [of t env ds cap buf de] assms(2,5,10,11,12)
    unfolding ts1 t1_def by auto
  have "handle_read_response_callback env t1 (response_packet env x1 y1 p1) 0 (4 + int (length p1))
          = Inr \<lparr>ret_rc = PLCTAG_STATUS_OK, ret_tag = s1,
                 ret_buffer = response_packet env x1 y1 p1,
                 ret_data_start = 4 + int (length p1), ret_data_end = 4 + int (length p1),
                 ret_started_request = True\<rparr>"
    using assms(1,3,4,6,7)
    by (subst read_round_handled) (simp_all add: defs)
  then obtain q1 where q1:
      "handle_read_response_callback env t1 (response_packet env x1 y1 p1) 0 248 = Inr q1"
      "ret_rc q1 = PLCTAG_STATUS_OK" "ret_started_request q1" "ret_tag q1 = s1"
    using assms(7) by simp
  obtain r2 where r2: "build_read_request_callback env s1 buf cap ds de = Inr r2"
      "ret_rc r2 = PLCTAG_STATUS_OK" "ret_tag r2 = t2" "requested_byte_count r2 = 244"
    using read_round_built [of s1 env ds cap buf de] assms(2,5,10,11,12)
    unfolding ts2 t2_def by (auto simp: s1_def t1_def)
  have "handle_read_response_callback env t2 (response_packet env x2 y2 p2) 0 (4 + int (length p2))
          = Inr \<lparr>ret_rc = PLCTAG_STATUS_OK, ret_tag = s2,
                 ret_buffer = response_packet env x2 y2 p2,
                 ret_data_start = 4 + int (length p2), ret_data_end = 4 + int (length p2),
                 ret_started_request = True\<rparr>"
    using assms(1,6,8) l1
    by (subst read_round_handled) (simp_all add: defs)
  then obtain q2 where q2:
      "handle_read_response_callback env t2 (response_packet env x2 y2 p2) 0 248 = Inr q2"
      "ret_rc q2 = PLCTAG_STATUS_OK" "ret_started_request q2" "ret_tag q2 = s2"
    using assms(8) by simp
  obtain r3 where r3: "build_read_request_callback env s2 buf cap ds de = Inr r3"
      "ret_rc r3 = PLCTAG_STATUS_OK" "ret_tag r3 = t3" "requested_byte_count r3 = 12"
    using read_round_built [of s2 env ds cap buf de] assms(2,5,10,11,12)
    unfolding ts3 t3_def by (auto simp: s2_def t2_def s1_def t1_def)
  have three: "overwrite_at (overwrite_at (overwrite_at ?d 0 p1) 244 p2) 488 p3 = p1 @ p2 @ p3"
    using assms(4,7,8,9) by (rule three_payloads_stored)
  have "handle_read_response_callback env t3 (response_packet env x3 y3 p3) 0 (4 + int (length p3))
          = Inr \<lparr>ret_rc = PLCTAG_STATUS_OK, ret_tag = s3,
                 ret_buffer = response_packet env x3 y3 p3,
                 ret_data_start = 4 + int (length p3), ret_data_end = 4 + int (length p3),
                 ret_started_request = False\<rparr>"
    using assms(1,6,9) l2 three
    by (subst read_round_handled) (simp_all add: defs)
  then obtain q3 where q3:
      "handle_read_response_callback env t3 (response_packet env x3 y3 p3) 0 16 = Inr q3"
      "ret_rc q3 = PLCTAG_STATUS_OK" "\<not> ret_started_request q3" "ret_tag q3 = s3"
    using assms(9) by simp
  have adv: "trans_offset (payload_stored t3 (response_packet env x3 y3 p3) 0 16) = 500"
    by (simp add: payload_stored_def defs)
  have offs: "trans_offset t1 = 0" "trans_offset s1 = 244" "trans_offset t2 = 244"
      "trans_offset s2 = 488" "trans_offset t3 = 488" "trans_offset s3 = 0"
      "base_tag_status s3 = PLCTAG_STATUS_OK" "base_tag_data s3 = p1 @ p2 @ p3"
    using assms(3) by (simp_all add: defs)
  note tags = r1(3) q1(4) r2(3) q2(4) r3(3) q3(4)
  note steps =
    r1(1,2,4) q1(1,2,3) [folded r1(3)] r2(1,2,4) [folded q1(4)] q2(1,2,3) [folded r2(3)]
    r3(1,2,4) [folded q2(4)] q3(1,2,3) [folded r3(3)] adv [folded r3(3)]
    offs [folded tags]
  show ?thesis
    by (intro exI [of _ r1] exI [of _ q1] exI [of _ r2] exI [of _ q2] exI [of _ r3] exI [of _ q3]
          conjI)
       (rule steps)+
qed
theorem read_scenario_three_rounds_witness:
  "base_tag_size scenario_tag = 500
   \<and> elem_size scenario_tag = 2
   \<and> trans_offset scenario_tag = 0
   \<and> length (base_tag_data scenario_tag) = 500
   \<and> fst (pccc_eip_plc_get_tsn scenario_env) = PLCTAG_STATUS_OK
   \<and> plc_start_request scenario_env = PLCTAG_STATUS_OK
   \<and> length (replicate 244 (1::uint8_t)) = 244
   \<and> length (replicate 244 (2::uint8_t)) = 244
   \<and> length (replicate 12 (3::uint8_t)) = 12
   \<and> (0::int) \<le> 0
   \<and> 0 + 10 + int (length (logical_address_bytes (data_file_num scenario_tag) (data_file_elem scenario_tag) (data_file_sub_elem scenario_tag))) \<le> 13
   \<and> 0 + 10 + int (length (logical_address_bytes (data_file_num scenario_tag) (data_file_elem scenario_tag) (data_file_sub_elem scenario_tag))) \<le> int (length (replicate 13 (0::uint8_t)))
   \<and> (\<exists>r1 q1 r2 q2 r3 q3.
      build_read_request_callback scenario_env scenario_tag (replicate 13 0) 13 0 0 = Inr r1
    \<and> ret_rc r1 = PLCTAG_STATUS_OK \<and> trans_offset (ret_tag r1) = 0 \<and> requested_byte_count r1 = 244
    \<and> handle_read_response_callback scenario_env (ret_tag r1)
          (response_packet scenario_env 0x34 0x12 (replicate 244 1)) 0 248 = Inr q1
    \<and> ret_rc q1 = PLCTAG_STATUS_OK \<and> ret_started_request q1 \<and> trans_offset (ret_tag q1) = 244
    \<and> build_read_request_callback scenario_env (ret_tag q1) (replicate 13 0) 13 0 0 = Inr r2
    \<and> ret_rc r2 = PLCTAG_STATUS_OK \<and> trans_offset (ret_tag r2) = 244 \<and> requested_byte_count r2 = 244
    \<and> handle_read_response_callback scenario_env (ret_tag r2)
          (response_packet scenario_env 0x34 0x12 (replicate 244 2)) 0 248 = Inr q2
    \<and> ret_rc q2 = PLCTAG_STATUS_OK \<and> ret_started_request q2 \<and> trans_offset (ret_tag q2) = 488
    \<and> build_read_request_callback scenario_env (ret_tag q2) (replicate 13 0) 13 0 0 = Inr r3
    \<and> ret_rc r3 = PLCTAG_STATUS_OK \<and> trans_offset (ret_tag r3) = 488 \<and> requested_byte_count r3 = 12
    \<and> trans_offset (payload_stored (ret_tag r3)
          (response_packet scenario_env 0x34 0x12 (replicate 12 3)) 0 16) = 500
    \<and> handle_read_response_callback scenario_env (ret_tag r3)
          (response_packet scenario_env 0x34 0x12 (replicate 12 3)) 0 16 = Inr q3
    \<and> ret_rc q3 = PLCTAG_STATUS_OK \<and> \<not> ret_started_request q3
    \<and> trans_offset (ret_tag q3) = 0 \<and> base_tag_status (ret_tag q3) = PLCTAG_STATUS_OK
    \<and> base_tag_data (ret_tag q3) = replicate 244 1 @ replicate 244 2 @ replicate 12 3)"
proof -
  have h1: "base_tag_size scenario_tag = 500"
    by (simp add: scenario_tag_def scenario_env_def logical_address_bytes_def field_bytes_def)
  have h2: "elem_size scenario_tag = 2"
    by (simp add: scenario_tag_def scenario_env_def logical_address_bytes_def field_bytes_def)
  have h3: "trans_offset scenario_tag = 0"
    by (simp add: scenario_tag_def scenario_env_def logical_address_bytes_def field_bytes_def)
  have h4: "length (base_tag_data scenario_tag) = 500"
    by (simp add: scenario_tag_def scenario_env_def logical_address_bytes_def field_bytes_def)
  have h5: "fst (pccc_eip_plc_get_tsn scenario_env) = PLCTAG_STATUS_OK"
    by (simp add: scenario_tag_def scenario_env_def logical_address_bytes_def field_bytes_def)
  have h6: "plc_start_request scenario_env = PLCTAG_STATUS_OK"
    by (simp add: scenario_tag_def scenario_env_def logical_address_bytes_def field_bytes_def)
  have h7: "length (replicate 244 (1::uint8_t)) = 244"
    by (simp add: scenario_tag_def scenario_env_def logical_address_bytes_def field_bytes_def)
  have h8: "length (replicate 244 (2::uint8_t)) = 244"
    by (simp add: scenario_tag_def scenario_env_def logical_address_bytes_def field_bytes_def)
  have h9: "length (replicate 12 (3::uint8_t)) = 12"
    by (simp add: scenario_tag_def scenario_env_def logical_address_bytes_def field_bytes_def)
  have h10: "(0::int) \<le> 0"
    by (simp add: scenario_tag_def scenario_env_def logical_address_bytes_def field_bytes_def)
  have h11: "0 + 10 + int (length (logical_address_bytes (data_file_num scenario_tag) (data_file_elem scenario_tag) (data_file_sub_elem scenario_tag))) \<le> 13"
    by (simp add: scenario_tag_def scenario_env_def logical_address_bytes_def field_bytes_def)
  have h12: "0 + 10 + int (length (logical_address_bytes (data_file_num scenario_tag) (data_file_elem scenario_tag) (data_file_sub_elem scenario_tag))) \<le> int (length (replicate 13 (0::uint8_t)))"
    by (simp add: scenario_tag_def scenario_env_def logical_address_bytes_def field_bytes_def)
  have rounds: "(\<exists>r1 q1 r2 q2 r3 q3.
        build_read_request_callback scenario_env scenario_tag (replicate 13 0) 13 0 0 = Inr r1
      \<and> ret_rc r1 = PLCTAG_STATUS_OK \<and> trans_offset (ret_tag r1) = 0 \<and> requested_byte_count r1 = 244
      \<and> handle_read_response_callback scenario_env (ret_tag r1)
            (response_packet scenario_env 0x34 0x12 (replicate 244 1)) 0 248 = Inr q1
      \<and> ret_rc q1 = PLCTAG_STATUS_OK \<and> ret_started_request q1 \<and> trans_offset (ret_tag q1) = 244
      \<and> build_read_request_callback scenario_env (ret_tag q1) (replicate 13 0) 13 0 0 = Inr r2
      \<and> ret_rc r2 = PLCTAG_STATUS_OK \<and> trans_offset (ret_tag r2) = 244 \<and> requested_byte_count r2 = 244
      \<and> handle_read_response_callback scenario_env (ret_tag r2)
            (response_packet scenario_env 0x34 0x12 (replicate 244 2)) 0 248 = Inr q2
      \<and> ret_rc q2 = PLCTAG_STATUS_OK \<and> ret_started_request q2 \<and> trans_offset (ret_tag q2) = 488
      \<and> build_read_request_callback scenario_env (ret_tag q2) (replicate 13 0) 13 0 0 = Inr r3
      \<and> ret_rc r3 = PLCTAG_STATUS_OK \<and> trans_offset (ret_tag r3) = 488 \<and> requested_byte_count r3 = 12
      \<and> trans_offset (payload_stored (ret_tag r3)
            (response_packet scenario_env 0x34 0x12 (replicate 12 3)) 0 16) = 500
      \<and> handle_read_response_callback scenario_env (ret_tag r3)
            (response_packet scenario_env 0x34 0x12 (replicate 12 3)) 0 16 = Inr q3
      \<and> ret_rc q3 = PLCTAG_STATUS_OK \<and> \<not> ret_started_request q3
      \<and> trans_offset (ret_tag q3) = 0 \<and> base_tag_status (ret_tag q3) = PLCTAG_STATUS_OK
      \<and> base_tag_data (ret_tag q3) = replicate 244 1 @ replicate 244 2 @ replicate 12 3)"
    by (rule read_scenario_three_rounds [OF h1 h2 h3 h4 h5 h6 h7 h8 h9 h10 h11 h12])
  show ?thesis
    by (intro conjI) (rule h1 h2 h3 h4 h5 h6 h7 h8 h9 h10 h11 h12 rounds)+
qed

end
